theory Spec2Isabelle
  imports Complex_Main "HOL-Library.Log_Nat"
begin

section \<open>JavaScript values used by the handlers\<close>

text \<open>
  Columns that the schema declares \<open>allowNull: true\<close> are options: \<open>None\<close> is the
  JavaScript \<open>null\<close>. A relational comparison coerces \<open>null\<close> to the number 0, the
  strict equality \<open>===\<close> does not, and \<open>x || 0\<close> replaces \<open>null\<close> (and 0) by 0.
\<close>

definition to_number :: "int option \<Rightarrow> int" where
  "to_number x = (case x of None \<Rightarrow> 0 | Some v \<Rightarrow> v)"

definition or_zero :: "int option \<Rightarrow> int" where
  "or_zero x = (case x of None \<Rightarrow> 0 | Some v \<Rightarrow> (if v = 0 then 0 else v))"

section \<open>Numbers\<close>

text \<open>
  A JavaScript number is an IEEE 754 double. A finite double is a rational \<open>m * 2^e\<close>
  with \<open>\<bar>m\<bar> < 2^53\<close>, and \<open>parseFloat\<close>, \<open>*\<close>, \<open>-\<close> and \<open>+\<close> each return the double nearest
  to their exact result, a tie going to the even \<open>m\<close>. Numbers are modelled by their
  rational values, in the range of the normal doubles (no overflow, no subnormal
  result), where page numbers, row counts, prices, quantities and their sums are.
\<close>

definition round_half_even :: "rat \<Rightarrow> int" where
  "round_half_even x =
     (let f = \<lfloor>x\<rfloor>; r = x - of_int f
      in if r < 1 / 2 then f else if 1 / 2 < r then f + 1 else if even f then f else f + 1)"

text \<open>
  The exponent of a positive rational: \<open>floor_log2 x = e\<close> with \<open>2^e \<le> x < 2^(e + 1)\<close>.
  For \<open>x = p / q\<close> in lowest terms, \<open>x\<close> lies between \<open>2^(n - 1)\<close> and \<open>2^(n + 1)\<close> for
  \<open>n\<close> the difference of the bit lengths of \<open>p\<close> and \<open>q\<close>.
\<close>

definition floor_log2 :: "rat \<Rightarrow> int" where
  "floor_log2 x =
     (let n = bitlen (fst (quotient_of x)) - bitlen (snd (quotient_of x))
      in if power_int 2 n \<le> x then n else n - 1)"

text \<open>The double nearest to \<open>x\<close>: \<open>x\<close> rounded to a multiple of \<open>2^(e - 52)\<close>.\<close>

definition nearest_double :: "rat \<Rightarrow> rat" where
  "nearest_double x =
     (if x = 0 then 0
      else let u = power_int 2 (floor_log2 \<bar>x\<bar> - 52)
           in of_int (round_half_even (x / u)) * u)"

text \<open>
  \<open>parseFloat\<close> of the decimal string of a \<open>DECIMAL\<close> column, given by the rational that
  the string denotes, and the four operators on doubles.
\<close>

definition parseFloat :: "rat \<Rightarrow> rat" where
  "parseFloat x = nearest_double x"

definition js_times :: "rat \<Rightarrow> rat \<Rightarrow> rat" where
  "js_times a b = nearest_double (a * b)"

definition js_minus :: "rat \<Rightarrow> rat \<Rightarrow> rat" where
  "js_minus a b = nearest_double (a - b)"

definition js_plus :: "rat \<Rightarrow> rat \<Rightarrow> rat" where
  "js_plus a b = nearest_double (a + b)"


section \<open>Products: the stock status ladder\<close>

text \<open>The columns of \<open>models/Product.js\<close>.\<close>

record product =
  productId :: int
  productName :: string
  supplierId :: "int option"
  categoryId :: "int option"
  quantityPerUnit :: "string option"
  unitPrice :: "rat option"
  unitsInStock :: "int option"
  unitsOnOrder :: "int option"
  reorderLevel :: "int option"
  discontinued :: bool

datatype stock_status = Discontinued | Out_of_Stock | Low_Stock | Reorder_Required | In_Stock

text \<open>
  \<open>getProductStockStatus\<close> of \<open>routes/products.js\<close>:
  \<^verbatim>\<open>
  if (product.discontinued) return 'Discontinued';
  if (product.unitsInStock === 0) return 'Out of Stock';
  if (product.unitsInStock < 10) return 'Low Stock';
  if (product.unitsInStock <= (product.reorderLevel || 0)) return 'Reorder Required';
  return 'In Stock';
  \<close>
\<close>

definition getProductStockStatus :: "product \<Rightarrow> stock_status" where
  "getProductStockStatus p =
     (if discontinued p then Discontinued
      else if unitsInStock p = Some 0 then Out_of_Stock
      else if to_number (unitsInStock p) < 10 then Low_Stock
      else if to_number (unitsInStock p) \<le> or_zero (reorderLevel p) then Reorder_Required
      else In_Stock)"

text \<open>
  \<open>getProductStockStatus\<close> of \<open>routes/categories.js\<close>, which has no rung for
  \<open>'Reorder Required'\<close>.
\<close>

definition getProductStockStatus_categories :: "product \<Rightarrow> stock_status" where
  "getProductStockStatus_categories p =
     (if discontinued p then Discontinued
      else if unitsInStock p = Some 0 then Out_of_Stock
      else if to_number (unitsInStock p) < 10 then Low_Stock
      else In_Stock)"

text \<open>
  The ladder of the Product model, \<open>models/Product.js\<close>. Its \<open>afterFind\<close> hook sets
  \<open>product.dataValues.stockStatus = product.getStockStatus()\<close> on every product that is
  read; the routes of above overwrite the field with their own ladder, and a route that
  returns the rows as they are, as \<open>GET /suppliers/:id/products\<close>, returns this one.
  \<^verbatim>\<open>
  Product.prototype.isDiscontinued = function() {
    return this.discontinued === 1 || this.discontinued === true;
  };
  Product.prototype.isLowStock = function() {
    const stock = parseInt(this.unitsInStock || 0);
    const reorder = parseInt(this.reorderLevel || 0);
    return stock <= reorder && stock > 0;
  };
  Product.prototype.isOutOfStock = function() {
    return parseInt(this.unitsInStock || 0) === 0;
  };
  Product.prototype.getStockStatus = function() {
    if (this.isDiscontinued()) return 'Discontinued';
    if (this.isOutOfStock()) return 'Out of Stock';
    if (this.isLowStock()) return 'Low Stock';
    return 'In Stock';
  };
  \<close>
\<close>

definition isDiscontinued :: "product \<Rightarrow> bool" where
  "isDiscontinued p = discontinued p"

definition isLowStock :: "product \<Rightarrow> bool" where
  "isLowStock p =
     (let stock = or_zero (unitsInStock p); reorder = or_zero (reorderLevel p)
      in stock \<le> reorder \<and> 0 < stock)"

definition isOutOfStock :: "product \<Rightarrow> bool" where
  "isOutOfStock p = (or_zero (unitsInStock p) = 0)"

definition getStockStatus :: "product \<Rightarrow> stock_status" where
  "getStockStatus p =
     (if isDiscontinued p then Discontinued
      else if isOutOfStock p then Out_of_Stock
      else if isLowStock p then Low_Stock
      else In_Stock)"

text \<open>
  The ladder in the words of the specification: Discontinued, then Out of Stock, then
  Reorder Required, then Low Stock, then In Stock.
\<close>

definition stockStatus_spec :: "bool \<Rightarrow> int \<Rightarrow> int \<Rightarrow> stock_status" where
  "stockStatus_spec disc units reorder =
     (if disc then Discontinued
      else if units = 0 then Out_of_Stock
      else if units \<le> reorder then Reorder_Required
      else if units < 10 then Low_Stock
      else In_Stock)"

text \<open>A product with five units in stock and a reorder level of ten.\<close>

definition chai :: product where
  "chai = \<lparr> productId = 1, productName = ''Chai'', supplierId = Some 1, categoryId = Some 1,
            quantityPerUnit = Some ''10 boxes'', unitPrice = Some 18, unitsInStock = Some 5,
            unitsOnOrder = Some 0, reorderLevel = Some 10, discontinued = False \<rparr>"

section \<open>Pagination\<close>

text \<open>
  The query parameters \<open>page\<close> and \<open>limit\<close> after validation: absent, or an integer
  (\<open>isInt({ min: 1 })\<close>, \<open>isInt({ min: 1, max: 100 })\<close>).
\<close>

record paging_query =
  q_page :: "int option"
  q_limit :: "int option"







record pagination =
  page :: rat
  limit :: rat
  total :: rat
  pages :: int



section \<open>Employees: age, years of service and the age filter\<close>

text \<open>
  A \<open>Date\<close> is used by \<open>getAge\<close> and by the age filter only through its local calendar
  fields, so a date is the record of what \<open>getFullYear()\<close>, \<open>getMonth()\<close> (0 to 11) and
  \<open>getDate()\<close> return, with the time of day in milliseconds. The store orders dates
  chronologically, which on these fields is the lexicographic order.
\<close>

record jsdate =
  getFullYear :: int
  getMonth :: int
  getDate :: int
  timeOfDay :: int

definition date_le :: "jsdate \<Rightarrow> jsdate \<Rightarrow> bool" where
  "date_le a b =
     (getFullYear a < getFullYear b \<or>
      (getFullYear a = getFullYear b \<and>
       (getMonth a < getMonth b \<or>
        (getMonth a = getMonth b \<and>
         (getDate a < getDate b \<or>
          (getDate a = getDate b \<and> timeOfDay a \<le> timeOfDay b))))))"

definition leap_year :: "int \<Rightarrow> bool" where
  "leap_year y = (y mod 4 = 0 \<and> (y mod 100 \<noteq> 0 \<or> y mod 400 = 0))"

definition days_in_month :: "int \<Rightarrow> int \<Rightarrow> int" where
  "days_in_month y m =
     (if m = 1 then (if leap_year y then 29 else 28)
      else if m = 3 \<or> m = 5 \<or> m = 8 \<or> m = 10 then 30
      else 31)"

definition valid_date :: "jsdate \<Rightarrow> bool" where
  "valid_date d =
     (0 \<le> getMonth d \<and> getMonth d \<le> 11 \<and>
      1 \<le> getDate d \<and> getDate d \<le> days_in_month (getFullYear d) (getMonth d) \<and>
      0 \<le> timeOfDay d \<and> timeOfDay d < 86400000)"

text \<open>
  \<open>new Date(year, monthIndex, day)\<close>: local midnight of that day. A year from 0 to 99
  means 1900 + year, and a day past the end of the month runs into the next month (the
  handlers pass the month and day of a real date, so the day is at most 31 and at most
  one month is crossed; December has 31 days).
\<close>

definition new_Date :: "int \<Rightarrow> int \<Rightarrow> int \<Rightarrow> jsdate" where
  "new_Date y m d =
     (let y' = (if 0 \<le> y \<and> y \<le> 99 then 1900 + y else y) in
      if days_in_month y' m < d
      then \<lparr> getFullYear = y', getMonth = m + 1, getDate = d - days_in_month y' m,
             timeOfDay = 0 \<rparr>
      else \<lparr> getFullYear = y', getMonth = m, getDate = d, timeOfDay = 0 \<rparr>)"

text \<open>
  The columns of the Employee model that are read below. \<open>hireDate\<close> is used only
  through the subtraction \<open>today - hireDate\<close>, which takes the time values of the two
  dates, so it is kept as its time value: milliseconds since the epoch.
\<close>

record employee =
  employeeId :: int
  lastName :: string
  firstName :: string
  birthDate :: "jsdate option"
  hireDate :: "int option"
  mgrId :: "int option"

text \<open>
  \<^verbatim>\<open>
  Employee.prototype.getAge = function() {
    if (!this.birthDate) return null;
    const today = new Date();
    const birthDate = new Date(this.birthDate);
    let age = today.getFullYear() - birthDate.getFullYear();
    const monthDiff = today.getMonth() - birthDate.getMonth();
    if (monthDiff < 0 || (monthDiff === 0 && today.getDate() < birthDate.getDate())) {
      age--;
    }
    return age;
  };
  \<close>
  The current date is an argument.
\<close>

definition getAge :: "jsdate \<Rightarrow> employee \<Rightarrow> int option" where
  "getAge today e =
     (case birthDate e of
        None \<Rightarrow> None
      | Some b \<Rightarrow>
          (let age = getFullYear today - getFullYear b;
               monthDiff = getMonth today - getMonth b
           in if monthDiff < 0 \<or> (monthDiff = 0 \<and> getDate today < getDate b)
              then Some (age - 1) else Some age))"

text \<open>
  \<^verbatim>\<open>
  Employee.prototype.getYearsOfService = function() {
    if (!this.hireDate) return null;
    const today = new Date();
    const hireDate = new Date(this.hireDate);
    return Math.floor((today - hireDate) / (365.25 * 24 * 60 * 60 * 1000));
  };
  \<close>
  The divisor is the integer 31557600000 and the quotient is taken exactly: the double
  quotient has the same floor as long as the difference is below some thousands of years.
\<close>

definition getYearsOfService :: "int \<Rightarrow> employee \<Rightarrow> int option" where
  "getYearsOfService today e =
     (case hireDate e of
        None \<Rightarrow> None
      | Some h \<Rightarrow> Some \<lfloor>(of_int (today - h) :: rat) / (365.25 * 24 * 60 * 60 * 1000)\<rfloor>)"

text \<open>One day in milliseconds.\<close>

definition day_ms :: int where
  "day_ms = 24 * 60 * 60 * 1000"

text \<open>
  The age filter of \<open>GET /employees\<close>. \<open>minAge\<close> and \<open>maxAge\<close> are query strings that
  passed \<open>isInt({ min: 0 })\<close>, so each is truthy when present, also when it is \<open>"0"\<close>,
  and the subtraction converts it to its number.
  \<^verbatim>\<open>
  if (minAge || maxAge) {
    const currentDate = new Date();
    if (maxAge) {
      const minBirthDate = new Date(currentDate.getFullYear() - maxAge,
                                    currentDate.getMonth(), currentDate.getDate());
      where.birthDate = where.birthDate || {};
      where.birthDate[Op.gte] = minBirthDate;
    }
    if (minAge) {
      const maxBirthDate = new Date(currentDate.getFullYear() - minAge,
                                    currentDate.getMonth(), currentDate.getDate());
      where.birthDate = where.birthDate || {};
      where.birthDate[Op.lte] = maxBirthDate;
    }
  }
  \<close>
\<close>

record birthDate_where =
  op_gte :: "jsdate option"
  op_lte :: "jsdate option"

definition age_filter :: "jsdate \<Rightarrow> int option \<Rightarrow> int option \<Rightarrow> birthDate_where" where
  "age_filter currentDate minAge maxAge =
     (if minAge \<noteq> None \<or> maxAge \<noteq> None
      then \<lparr> op_gte =
               (case maxAge of
                  None \<Rightarrow> None
                | Some a \<Rightarrow> Some (new_Date (getFullYear currentDate - a)
                                     (getMonth currentDate) (getDate currentDate))),
             op_lte =
               (case minAge of
                  None \<Rightarrow> None
                | Some a \<Rightarrow> Some (new_Date (getFullYear currentDate - a)
                                     (getMonth currentDate) (getDate currentDate))) \<rparr>
      else \<lparr> op_gte = None, op_lte = None \<rparr>)"

text \<open>
  The rows that the store returns for \<open>where.birthDate\<close>: both bounds are inclusive, and a
  row whose \<open>birthDate\<close> is \<open>NULL\<close> satisfies no comparison.
\<close>

definition birthDate_matches :: "birthDate_where \<Rightarrow> employee \<Rightarrow> bool" where
  "birthDate_matches w e =
     ((case op_gte w of
         None \<Rightarrow> True
       | Some lo \<Rightarrow> (case birthDate e of None \<Rightarrow> False | Some b \<Rightarrow> date_le lo b)) \<and>
      (case op_lte w of
         None \<Rightarrow> True
       | Some hi \<Rightarrow> (case birthDate e of None \<Rightarrow> False | Some b \<Rightarrow> date_le b hi)))"

text \<open>An employee born on 1 January 1994, and 15 June 2024.\<close>

definition davolio :: employee where
  "davolio = \<lparr> employeeId = 1, lastName = ''Davolio'', firstName = ''Nancy'',
               birthDate = Some \<lparr> getFullYear = 1994, getMonth = 0, getDate = 1,
                                  timeOfDay = 0 \<rparr>,
               hireDate = Some 1406332800000, mgrId = Some 2 \<rparr>"

definition june_15_2024 :: jsdate where
  "june_15_2024 = \<lparr> getFullYear = 2024, getMonth = 5, getDate = 15, timeOfDay = 0 \<rparr>"

section \<open>GET /products: the where clause\<close>

text \<open>
  The filter parameters of the product list after validation. \<open>categoryId\<close> and
  \<open>supplierId\<close> passed \<open>isInt({ min: 1 })\<close>, \<open>minPrice\<close> and \<open>maxPrice\<close> passed
  \<open>isFloat({ min: 0 })\<close>; \<open>discontinued\<close>, \<open>inStock\<close> and \<open>lowStock\<close> passed \<open>isBoolean()\<close>
  and stay strings, because the handler compares them with \<open>'true'\<close>. A price bound is
  given by the number that its string denotes: \<open>parseFloat\<close> reads it and the query text
  prints it back.
\<close>

record product_query = paging_query +
  q_search :: "string option"
  q_categoryId :: "int option"
  q_supplierId :: "int option"
  q_discontinued :: "string option"
  q_inStock :: "string option"
  q_lowStock :: "string option"
  q_minPrice :: "rat option"
  q_maxPrice :: "rat option"

text \<open>A condition on an integer column: a value, or an object of operators.\<close>

datatype int_cond = Equals int | Op_gt int | Op_lt int | Op_and "int_cond list"

fun int_cond_holds :: "int_cond \<Rightarrow> int \<Rightarrow> bool" where
  "int_cond_holds (Equals k) v = (v = k)"
| "int_cond_holds (Op_gt k) v = (k < v)"
| "int_cond_holds (Op_lt k) v = (v < k)"
| "int_cond_holds (Op_and cs) v = list_all (\<lambda>c. int_cond_holds c v) cs"

record price_where =
  price_gte :: "rat option"
  price_lte :: "rat option"

text \<open>
  The \<open>where\<close> object: one field for each key that the handler may set. \<open>w_or_like\<close> is
  the key \<open>Op.or\<close>, whose value is the pair of \<open>LIKE\<close> conditions on \<open>productName\<close> and
  \<open>quantityPerUnit\<close> for the pattern \<open>%search%\<close>.
\<close>

record product_where =
  w_or_like :: "string option"
  w_categoryId :: "int option"
  w_supplierId :: "int option"
  w_discontinued :: "bool option"
  w_unitsInStock :: "int_cond option"
  w_unitPrice :: "price_where option"

definition empty_where :: product_where where
  "empty_where = \<lparr> w_or_like = None, w_categoryId = None, w_supplierId = None,
                    w_discontinued = None, w_unitsInStock = None, w_unitPrice = None \<rparr>"

text \<open>A string is truthy when it is present and not empty.\<close>

definition truthy_string :: "string option \<Rightarrow> bool" where
  "truthy_string x = (case x of None \<Rightarrow> False | Some s \<Rightarrow> s \<noteq> [])"

text \<open>
  \<^verbatim>\<open>
  const where = {};
  if (search) {
    where[Op.or] = [
      { productName: { [Op.like]: `%${search}%` } },
      { quantityPerUnit: { [Op.like]: `%${search}%` } }
    ];
  }
  if (categoryId) where.categoryId = categoryId;
  if (supplierId) where.supplierId = supplierId;
  if (discontinued !== undefined) where.discontinued = discontinued === 'true';
  if (inStock !== undefined) {
    where.unitsInStock = inStock === 'true' ? { [Op.gt]: 0 } : 0;
  }
  if (lowStock === 'true') {
    where.unitsInStock = { [Op.and]: [{ [Op.gt]: 0 }, { [Op.lt]: 10 }] };
  }
  if (minPrice || maxPrice) {
    where.unitPrice = {};
    if (minPrice) where.unitPrice[Op.gte] = parseFloat(minPrice);
    if (maxPrice) where.unitPrice[Op.lte] = parseFloat(maxPrice);
  }
  \<close>
  The assignments are made in this order, each on the object that the one before left.
\<close>

definition build_where :: "'a product_query_scheme \<Rightarrow> product_where" where
  "build_where q =
     (let w1 = (if truthy_string (q_search q)
                then empty_where\<lparr>w_or_like := q_search q\<rparr> else empty_where);
          w2 = (case q_categoryId q of
                  None \<Rightarrow> w1 | Some c \<Rightarrow> w1\<lparr>w_categoryId := Some c\<rparr>);
          w3 = (case q_supplierId q of
                  None \<Rightarrow> w2 | Some c \<Rightarrow> w2\<lparr>w_supplierId := Some c\<rparr>);
          w4 = (case q_discontinued q of
                  None \<Rightarrow> w3 | Some t \<Rightarrow> w3\<lparr>w_discontinued := Some (t = ''true'')\<rparr>);
          w5 = (case q_inStock q of
                  None \<Rightarrow> w4
                | Some t \<Rightarrow>
                    w4\<lparr>w_unitsInStock := Some (if t = ''true'' then Op_gt 0 else Equals 0)\<rparr>);
          w6 = (if q_lowStock q = Some ''true''
                then w5\<lparr>w_unitsInStock := Some (Op_and [Op_gt 0, Op_lt 10])\<rparr> else w5);
          w7 = (if q_minPrice q \<noteq> None \<or> q_maxPrice q \<noteq> None
                then w6\<lparr>w_unitPrice :=
                          Some \<lparr> price_gte = q_minPrice q, price_lte = q_maxPrice q \<rparr>\<rparr>
                else w6)
      in w7)"

text \<open>
  The rows that the store returns for a \<open>where\<close> object: the conditions of all keys
  hold together, and a \<open>NULL\<close> column satisfies no comparison. The \<open>LIKE\<close> operator of the
  store (pattern first) is a parameter.
\<close>

definition where_matches ::
  "(string \<Rightarrow> string \<Rightarrow> bool) \<Rightarrow> product_where \<Rightarrow> product \<Rightarrow> bool" where
  "where_matches like w p =
     ((case w_or_like w of
         None \<Rightarrow> True
       | Some t \<Rightarrow>
           like (''%'' @ t @ ''%'') (productName p) \<or>
           (case quantityPerUnit p of
              None \<Rightarrow> False | Some u \<Rightarrow> like (''%'' @ t @ ''%'') u)) \<and>
      (case w_categoryId w of None \<Rightarrow> True | Some c \<Rightarrow> categoryId p = Some c) \<and>
      (case w_supplierId w of None \<Rightarrow> True | Some c \<Rightarrow> supplierId p = Some c) \<and>
      (case w_discontinued w of None \<Rightarrow> True | Some b \<Rightarrow> discontinued p = b) \<and>
      (case w_unitsInStock w of
         None \<Rightarrow> True
       | Some c \<Rightarrow>
           (case unitsInStock p of None \<Rightarrow> False | Some u \<Rightarrow> int_cond_holds c u)) \<and>
      (case w_unitPrice w of
         None \<Rightarrow> True
       | Some r \<Rightarrow>
           (case price_gte r of
              None \<Rightarrow> True
            | Some lo \<Rightarrow> (case unitPrice p of None \<Rightarrow> False | Some x \<Rightarrow> lo \<le> x)) \<and>
           (case price_lte r of
              None \<Rightarrow> True
            | Some hi \<Rightarrow> (case unitPrice p of None \<Rightarrow> False | Some x \<Rightarrow> x \<le> hi))))"

text \<open>The rows of a table that a request returns, before paging.\<close>

definition matching_rows ::
  "(string \<Rightarrow> string \<Rightarrow> bool) \<Rightarrow> 'a product_query_scheme \<Rightarrow> product list \<Rightarrow> product list"
  where
  "matching_rows like q rows = filter (where_matches like (build_where q)) rows"

text \<open>
  The request without any filter, and the requests \<open>inStock=false\<close>, \<open>lowStock=true\<close> and
  \<open>inStock=false&lowStock=true\<close>.
\<close>

definition no_filter :: product_query where
  "no_filter = \<lparr> q_page = None, q_limit = None, q_search = None, q_categoryId = None,
                  q_supplierId = None, q_discontinued = None, q_inStock = None,
                  q_lowStock = None, q_minPrice = None, q_maxPrice = None \<rparr>"

definition inStock_false :: product_query where
  "inStock_false = no_filter\<lparr>q_inStock := Some ''false''\<rparr>"

definition lowStock_true :: product_query where
  "lowStock_true = no_filter\<lparr>q_lowStock := Some ''true''\<rparr>"

definition inStock_false_lowStock_true :: product_query where
  "inStock_false_lowStock_true =
     no_filter\<lparr>q_inStock := Some ''false'', q_lowStock := Some ''true''\<rparr>"

section \<open>The store\<close>

text \<open>
  A \<open>DATE\<close> column read from the store is a \<open>Date\<close> object; the order handlers use one
  only through whether it is \<open>null\<close>, so a date is its time value.
\<close>

type_synonym date = int

text \<open>The columns of \<open>models/Order.js\<close> and of the OrderDetail model.\<close>

record order =
  orderId :: int
  custId :: int
  o_employeeId :: "int option"
  orderDate :: "date option"
  requiredDate :: "date option"
  shippedDate :: "date option"
  shipperId :: int
  freight :: "rat option"
  shipName :: "string option"
  shipAddress :: "string option"
  shipCity :: "string option"
  shipRegion :: "string option"
  shipPostalCode :: "string option"
  shipCountry :: "string option"

record order_detail =
  orderDetailId :: int
  od_orderId :: int
  od_productId :: int
  od_unitPrice :: rat
  quantity :: int
  discount :: rat

text \<open>
  The tables. The handlers read a customer, a shipper and a category only through its
  primary key, so these three tables are the lists of their keys.
\<close>

record db =
  customers :: "int list"
  employees :: "employee list"
  shippers :: "int list"
  categories :: "int list"
  products :: "product list"
  orders :: "order list"
  orderDetails :: "order_detail list"

text \<open>
  A key for a new row: greater than every key of the table, as \<open>autoIncrement\<close> gives.
\<close>

definition next_key :: "int list \<Rightarrow> int" where
  "next_key ks = foldr max ks 0 + 1"

text \<open>
  What a handler leaves behind: the response, the committed tables, and what became of
  the transaction it opened with \<open>sequelize.transaction()\<close> (\<open>None\<close> for a handler that
  opens none). A write made with \<open>{ transaction }\<close> reaches the tables at \<open>commit()\<close>.
  \<open>Next_error\<close> is \<open>next(error)\<close>: the error goes to the error middleware.
  \<open>Unanswered\<close> is a handler that ends without \<open>res.json\<close> and without \<open>next\<close>.
\<close>

datatype response = Json nat string | Next_error | Unanswered

datatype txn_state = Open | Committed | Rolled_back

datatype payload = No_data | Order_data order | Deleted int nat

record outcome =
  response :: response
  store :: db
  transaction :: "txn_state option"
  data :: payload

text \<open>
  The handlers reach a table through \<open>models.<Key>\<close>, the registry of
  \<open>config/database.js\<close>:
  \<^verbatim>\<open>
  const models = {
    Category: Category(sequelize, DataTypes),
    Customer: Customer(sequelize, DataTypes),
    Employee: Employee(sequelize, DataTypes),
    SalesOrder: SalesOrder(sequelize, DataTypes),
    OrderDetail: OrderDetail(sequelize, DataTypes),
    Product: Product(sequelize, DataTypes),
    Supplier: Supplier(sequelize, DataTypes),
    Shipper: Shipper(sequelize, DataTypes),
    Territory: Territory(sequelize, DataTypes),
    Region: Region(sequelize, DataTypes),
    CustomerDemographics: CustomerDemographics(sequelize, DataTypes),
    EmployeeTerritory: EmployeeTerritory(sequelize, DataTypes),
    User: User(sequelize, DataTypes),
  };
  \<close>
  The model of \<open>models/Order.js\<close> is registered under the key \<open>SalesOrder\<close>. The
  handlers of orders, employees and customers write \<open>models.Order\<close>, a key that the
  registry does not have: \<open>models.Order\<close> is \<open>undefined\<close>, and a call such as
  \<open>models.Order.findByPk(id)\<close> throws a \<open>TypeError\<close>.
\<close>

datatype model =
  Category | Customer | Employee | SalesOrder | OrderDetail | Product | Supplier | Shipper
| Territory | Region | CustomerDemographics | EmployeeTerritory | User | Order

definition models :: "model list" where
  "models = [Category, Customer, Employee, SalesOrder, OrderDetail, Product, Supplier,
             Shipper, Territory, Region, CustomerDemographics, EmployeeTerritory, User]"

text \<open>
  A call of the store inside a \<open>try\<close> block may throw. The calls of a handler are
  numbered from 0 in the order of the source, and \<open>fault\<close> is the number of the call
  at which the store fails, if it does. The call number \<open>k\<close>, written \<open>models.m\<close>,
  throws when the store fails there or when the registry has no key \<open>m\<close>. The \<open>catch\<close>
  block of a handler with a transaction rolls it back and forwards the error.
\<close>

definition throws :: "nat option \<Rightarrow> nat \<Rightarrow> model \<Rightarrow> bool" where
  "throws fault k m = (fault = Some k \<or> m \<notin> set models)"

definition caught :: "db \<Rightarrow> outcome" where
  "caught d = \<lparr> response = Next_error, store = d, transaction = Some Rolled_back,
                data = No_data \<rparr>"

definition forwarded :: "db \<Rightarrow> outcome" where
  "forwarded d = \<lparr> response = Next_error, store = d, transaction = None, data = No_data \<rparr>"

text \<open>The decimal digits of a number, as a template literal prints it.\<close>

definition digit :: "nat \<Rightarrow> char" where
  "digit n = ''0123456789'' ! n"

function show_nat :: "nat \<Rightarrow> string" where
  "show_nat n = (if n < 10 then [digit n] else show_nat (n div 10) @ [digit (n mod 10)])"
  by pat_completeness auto
termination
  by (relation "measure id") auto

declare show_nat.simps [simp del]

section \<open>The order handlers\<close>



text \<open>
  The body of \<open>POST /orders\<close> after validation. The three dates are ISO 8601 strings;
  the store converts a string to a date when it writes the row, and that conversion is
  the parameter \<open>parse_date\<close> of the handlers.
\<close>

record order_detail_body =
  d_productId :: int
  d_quantity :: int
  d_unitPrice :: rat
  d_discount :: "rat option"

record order_body =
  b_custId :: int
  b_employeeId :: "int option"
  b_orderDate :: "string option"
  b_requiredDate :: "string option"
  b_shippedDate :: "string option"
  b_shipperId :: int
  b_freight :: "rat option"
  b_shipName :: "string option"
  b_shipAddress :: "string option"
  b_shipCity :: "string option"
  b_shipRegion :: "string option"
  b_shipPostalCode :: "string option"
  b_shipCountry :: "string option"
  b_orderDetails :: "order_detail_body list"

definition truthy_int :: "int option \<Rightarrow> bool" where
  "truthy_int x = (case x of None \<Rightarrow> False | Some n \<Rightarrow> n \<noteq> 0)"

text \<open>\<open>xs.join(', ')\<close>\<close>

fun join_comma :: "string list \<Rightarrow> string" where
  "join_comma [] = []"
| "join_comma [x] = x"
| "join_comma (x # y # ys) = x @ '', '' @ join_comma (y # ys)"

text \<open>
  The row of \<open>orderData\<close>, the argument of \<open>Order.create(orderData, { transaction })\<close>,
  after the default of the order date:
  \<open>if (!orderData.orderDate) orderData.orderDate = new Date();\<close>. The model of
  \<open>models/Order.js\<close> gives \<open>freight\<close> the default 0.
\<close>

definition created_order :: "(string \<Rightarrow> date) \<Rightarrow> date \<Rightarrow> int \<Rightarrow> order_body \<Rightarrow> order" where
  "created_order parse_date now k b =
     \<lparr> orderId = k,
       custId = b_custId b,
       o_employeeId = b_employeeId b,
       orderDate = (if \<not> truthy_string (b_orderDate b) then Some now
                    else map_option parse_date (b_orderDate b)),
       requiredDate = map_option parse_date (b_requiredDate b),
       shippedDate = map_option parse_date (b_shippedDate b),
       shipperId = b_shipperId b,
       freight = (case b_freight b of None \<Rightarrow> Some 0 | Some f \<Rightarrow> Some f),
       shipName = b_shipName b,
       shipAddress = b_shipAddress b,
       shipCity = b_shipCity b,
       shipRegion = b_shipRegion b,
       shipPostalCode = b_shipPostalCode b,
       shipCountry = b_shipCountry b \<rparr>"

text \<open>
  \<^verbatim>\<open>
  const detailsWithOrderId = orderDetails.map(detail => ({
    ...detail, orderId: order.orderId, discount: detail.discount || 0 }));
  \<close>
  The rows get consecutive new keys.
\<close>

fun created_details :: "int \<Rightarrow> int \<Rightarrow> order_detail_body list \<Rightarrow> order_detail list" where
  "created_details k oid [] = []"
| "created_details k oid (x # xs) =
     \<lparr> orderDetailId = k, od_orderId = oid, od_productId = d_productId x,
       od_unitPrice = d_unitPrice x, quantity = d_quantity x,
       discount = (case d_discount x of None \<Rightarrow> 0 | Some c \<Rightarrow> c) \<rparr>
     # created_details (k + 1) oid xs"

text \<open>
  \<open>POST /orders\<close>. The store calls, in order: 0 \<open>Customer.findByPk\<close>,
  1 \<open>Employee.findByPk\<close>, 2 \<open>Shipper.findByPk\<close>, 3 \<open>Product.findAll\<close>, 4 \<open>Order.create\<close>,
  5 \<open>OrderDetail.bulkCreate\<close> and, after the commit, 6 \<open>Order.findByPk\<close>. Each of the
  five validation failures returns its response at once. A throw of call 6 reaches the
  \<open>catch\<close> block when the transaction is committed: \<open>rollback()\<close> of a finished
  transaction throws in its turn, so \<open>next\<close> is not called, the rows stay written and
  the request gets no response. \<open>commit()\<close> itself is taken not to throw.
  \<^verbatim>\<open>
  const transaction = await sequelize.transaction();
  try {
    const { orderDetails, ...orderData } = req.body;
    const customer = await models.Customer.findByPk(orderData.custId);
    if (!customer) {
      return res.status(400).json({ success: false,
        error: { message: 'Customer not found', field: 'custId', statusCode: 400 } });
    }
    ...
    const order = await models.Order.create(orderData, { transaction });
    ...
    await models.OrderDetail.bulkCreate(detailsWithOrderId, { transaction });
    await transaction.commit();
    const completeOrder = await models.Order.findByPk(order.orderId, { include: [...] });
    res.status(201).json({ success: true, data: completeOrder,
      message: 'Order created successfully' });
  } catch (error) {
    await transaction.rollback();
    next(error);
  }
  \<close>
\<close>

definition post_order ::
  "(string \<Rightarrow> date) \<Rightarrow> date \<Rightarrow> nat option \<Rightarrow> db \<Rightarrow> order_body \<Rightarrow> outcome" where
  "post_order parse_date now fault d b =
     (let productIds = map d_productId (b_orderDetails b);
          found = filter (\<lambda>p. productId p \<in> set productIds) (products d);
          discontinuedProducts = filter discontinued found;
          row = created_order parse_date now (next_key (map orderId (orders d))) b;
          details = created_details (next_key (map orderDetailId (orderDetails d)))
                      (orderId row) (b_orderDetails b);
          d' = d\<lparr>orders := orders d @ [row], orderDetails := orderDetails d @ details\<rparr>
      in
      if throws fault 0 Customer then caught d
      else if b_custId b \<notin> set (customers d)
      then \<lparr> response = Json 400 ''Customer not found'', store = d,
             transaction = Some Open, data = No_data \<rparr>
      else if truthy_int (b_employeeId b) \<and> throws fault 1 Employee then caught d
      else if truthy_int (b_employeeId b) \<and>
              find (\<lambda>e. Some (employeeId e) = b_employeeId b) (employees d) = None
      then \<lparr> response = Json 400 ''Employee not found'', store = d,
             transaction = Some Open, data = No_data \<rparr>
      else if throws fault 2 Shipper then caught d
      else if b_shipperId b \<notin> set (shippers d)
      then \<lparr> response = Json 400 ''Shipper not found'', store = d,
             transaction = Some Open, data = No_data \<rparr>
      else if throws fault 3 Product then caught d
      else if length found \<noteq> length productIds
      then \<lparr> response = Json 400 ''One or more products not found'', store = d,
             transaction = Some Open, data = No_data \<rparr>
      else if 0 < length discontinuedProducts
      then \<lparr> response =
               Json 400 (''Cannot order discontinued products: '' @
                         join_comma (map productName discontinuedProducts)),
             store = d, transaction = Some Open, data = No_data \<rparr>
      else if throws fault 4 Order then caught d
      else if throws fault 5 OrderDetail then caught d
      else if throws fault 6 Order
      then \<lparr> response = Unanswered, store = d', transaction = Some Committed,
             data = No_data \<rparr>
      else \<lparr> response = Json 201 ''Order created successfully'', store = d',
             transaction = Some Committed,
             data = (case find (\<lambda>ord. orderId ord = orderId row) (orders d') of
                       None \<Rightarrow> No_data | Some ord \<Rightarrow> Order_data ord) \<rparr>)"

text \<open>
  \<open>DELETE /orders/:id\<close>. The store calls: 0 \<open>Order.findByPk\<close>, 1 \<open>OrderDetail.destroy\<close>,
  2 \<open>Order.destroy\<close>.
  \<^verbatim>\<open>
  const transaction = await sequelize.transaction();
  try {
    const { id } = req.params;
    const order = await models.Order.findByPk(id);
    if (!order) {
      return res.status(404).json({ success: false,
        error: { message: 'Order not found', statusCode: 404 } });
    }
    if (order.shippedDate) {
      return res.status(400).json({ success: false,
        error: { message: 'Cannot delete shipped orders', statusCode: 400 } });
    }
    await models.OrderDetail.destroy({ where: { orderId: id }, transaction });
    await models.Order.destroy({ where: { orderId: id }, transaction });
    await transaction.commit();
    res.json({ success: true, message: 'Order deleted successfully' });
  } catch (error) {
    await transaction.rollback();
    next(error);
  }
  \<close>
\<close>

definition delete_order :: "nat option \<Rightarrow> db \<Rightarrow> int \<Rightarrow> outcome" where
  "delete_order fault d k =
     (if throws fault 0 Order then caught d
      else case find (\<lambda>ord. orderId ord = k) (orders d) of
        None \<Rightarrow>
          \<lparr> response = Json 404 ''Order not found'', store = d,
            transaction = Some Open, data = No_data \<rparr>
      | Some ord \<Rightarrow>
          if shippedDate ord \<noteq> None
          then \<lparr> response = Json 400 ''Cannot delete shipped orders'', store = d,
                 transaction = Some Open, data = No_data \<rparr>
          else if throws fault 1 OrderDetail then caught d
          else if throws fault 2 Order then caught d
          else \<lparr> response = Json 200 ''Order deleted successfully'',
                 store = d\<lparr>orderDetails := filter (\<lambda>x. od_orderId x \<noteq> k) (orderDetails d),
                            orders := filter (\<lambda>ord. orderId ord \<noteq> k) (orders d)\<rparr>,
                 transaction = Some Committed, data = No_data \<rparr>)"

text \<open>
  The body of \<open>PUT /orders/:id\<close> after validation: every field is optional.
\<close>

record order_update =
  u_employeeId :: "int option"
  u_requiredDate :: "string option"
  u_shippedDate :: "string option"
  u_shipperId :: "int option"
  u_freight :: "rat option"
  u_shipName :: "string option"
  u_shipAddress :: "string option"
  u_shipCity :: "string option"
  u_shipRegion :: "string option"
  u_shipPostalCode :: "string option"
  u_shipCountry :: "string option"

text \<open>
  The values that the guard of \<open>PUT /orders/:id\<close> compares with \<open>!==\<close>: the
  \<open>shippedDate\<close> of the body is \<open>undefined\<close> or a string, the \<open>shippedDate\<close> of the
  stored order is a \<open>Date\<close> object. Values of different types are never strictly equal,
  and two objects are strictly equal only when they are one object, which an object
  read from the store and a value of the request body are not.
\<close>

datatype jsval = JUndefined | JString string | JDate date

fun strict_equals :: "jsval \<Rightarrow> jsval \<Rightarrow> bool" where
  "strict_equals JUndefined JUndefined = True"
| "strict_equals (JString a) (JString b) = (a = b)"
| "strict_equals _ _ = False"

definition body_value :: "string option \<Rightarrow> jsval" where
  "body_value x = (case x of None \<Rightarrow> JUndefined | Some t \<Rightarrow> JString t)"

text \<open>
  \<open>Order.update(req.body, { where: { orderId: id } })\<close> on one row. The number that
  \<open>update\<close> returns is the number of rows that the statement changed: a row that
  already has the values of the body does not count.
\<close>

definition apply_update :: "(string \<Rightarrow> date) \<Rightarrow> order_update \<Rightarrow> order \<Rightarrow> order" where
  "apply_update parse_date u ord =
     ord\<lparr> o_employeeId := (case u_employeeId u of None \<Rightarrow> o_employeeId ord | Some e \<Rightarrow> Some e),
        requiredDate := (case u_requiredDate u of
                           None \<Rightarrow> requiredDate ord | Some t \<Rightarrow> Some (parse_date t)),
        shippedDate := (case u_shippedDate u of
                          None \<Rightarrow> shippedDate ord | Some t \<Rightarrow> Some (parse_date t)),
        shipperId := (case u_shipperId u of None \<Rightarrow> shipperId ord | Some c \<Rightarrow> c),
        freight := (case u_freight u of None \<Rightarrow> freight ord | Some f \<Rightarrow> Some f),
        shipName := (case u_shipName u of None \<Rightarrow> shipName ord | Some t \<Rightarrow> Some t),
        shipAddress := (case u_shipAddress u of None \<Rightarrow> shipAddress ord | Some t \<Rightarrow> Some t),
        shipCity := (case u_shipCity u of None \<Rightarrow> shipCity ord | Some t \<Rightarrow> Some t),
        shipRegion := (case u_shipRegion u of None \<Rightarrow> shipRegion ord | Some t \<Rightarrow> Some t),
        shipPostalCode :=
          (case u_shipPostalCode u of None \<Rightarrow> shipPostalCode ord | Some t \<Rightarrow> Some t),
        shipCountry := (case u_shipCountry u of None \<Rightarrow> shipCountry ord | Some t \<Rightarrow> Some t) \<rparr>"

text \<open>
  \<open>PUT /orders/:id\<close>, which opens no transaction. The store calls: 0 \<open>Order.findByPk\<close>,
  1 \<open>Employee.findByPk\<close>, 2 \<open>Shipper.findByPk\<close>, 3 \<open>Order.update\<close>, 4 \<open>Order.findByPk\<close>.
  \<^verbatim>\<open>
  const existingOrder = await models.Order.findByPk(id);
  if (!existingOrder) { return res.status(404).json(... 'Order not found' ...); }
  // Prevent modification of shipped orders
  if (existingOrder.shippedDate && req.body.shippedDate !== existingOrder.shippedDate) {
    return res.status(400).json(... 'Cannot modify shipped orders' ...);
  }
  if (req.body.employeeId) { ... 'Employee not found' ... }
  if (req.body.shipperId) { ... 'Shipper not found' ... }
  const [updatedRows] = await models.Order.update(req.body, { where: { orderId: id } });
  if (updatedRows === 0) { return res.status(404).json(... 'Order not found' ...); }
  const updatedOrder = await models.Order.findByPk(id, ...);
  res.json({ success: true, data: updatedOrder, message: 'Order updated successfully' });
  \<close>
\<close>

definition put_order ::
  "(string \<Rightarrow> date) \<Rightarrow> nat option \<Rightarrow> db \<Rightarrow> int \<Rightarrow> order_update \<Rightarrow> outcome" where
  "put_order parse_date fault d k u =
     (let d' = d\<lparr>orders := map (\<lambda>ord. if orderId ord = k then apply_update parse_date u ord else ord)
                               (orders d)\<rparr>;
          updatedRows = length (filter (\<lambda>ord. orderId ord = k \<and>
                                            apply_update parse_date u ord \<noteq> ord) (orders d))
      in
      if throws fault 0 Order then forwarded d
      else case find (\<lambda>ord. orderId ord = k) (orders d) of
        None \<Rightarrow>
          \<lparr> response = Json 404 ''Order not found'', store = d, transaction = None,
            data = No_data \<rparr>
      | Some existingOrder \<Rightarrow>
          if (case shippedDate existingOrder of
                None \<Rightarrow> False
              | Some t \<Rightarrow> \<not> strict_equals (body_value (u_shippedDate u)) (JDate t))
          then \<lparr> response = Json 400 ''Cannot modify shipped orders'', store = d,
                 transaction = None, data = No_data \<rparr>
          else if truthy_int (u_employeeId u) \<and> throws fault 1 Employee then forwarded d
          else if truthy_int (u_employeeId u) \<and>
                  find (\<lambda>e. Some (employeeId e) = u_employeeId u) (employees d) = None
          then \<lparr> response = Json 400 ''Employee not found'', store = d,
                 transaction = None, data = No_data \<rparr>
          else if truthy_int (u_shipperId u) \<and> throws fault 2 Shipper then forwarded d
          else if truthy_int (u_shipperId u) \<and>
                  (case u_shipperId u of None \<Rightarrow> False | Some c \<Rightarrow> c \<notin> set (shippers d))
          then \<lparr> response = Json 400 ''Shipper not found'', store = d,
                 transaction = None, data = No_data \<rparr>
          else if throws fault 3 Order then forwarded d
          else if updatedRows = 0
          then \<lparr> response = Json 404 ''Order not found'', store = d', transaction = None,
                 data = No_data \<rparr>
          else if throws fault 4 Order then forwarded d'
          else \<lparr> response = Json 200 ''Order updated successfully'', store = d',
                 transaction = None,
                 data = (case find (\<lambda>ord. orderId ord = k) (orders d') of
                           None \<Rightarrow> No_data | Some ord \<Rightarrow> Order_data ord) \<rparr>)"

section \<open>Order totals\<close>

text \<open>
  \<^verbatim>\<open>
  OrderDetail.prototype.getLineTotal = function() {
    return parseFloat(this.unitPrice) * parseInt(this.quantity) * (1 - parseFloat(this.discount));
  };
  \<close>
\<close>

definition getLineTotal :: "order_detail \<Rightarrow> rat" where
  "getLineTotal x =
     js_times (js_times (parseFloat (od_unitPrice x)) (nearest_double (of_int (quantity x))))
       (js_minus 1 (parseFloat (discount x)))"

text \<open>
  The \<open>afterFind\<close> hook of \<open>models/Order.js\<close>:
  \<^verbatim>\<open>
  const orderTotal = order.orderDetails.reduce((total, detail) => {
    return total + (parseFloat(detail.unitPrice || 0) * parseInt(detail.quantity || 0)
                    * (1 - parseFloat(detail.discount || 0)));
  }, 0);
  order.dataValues.orderTotal = orderTotal + parseFloat(order.freight || 0);
  order.dataValues.subtotal = orderTotal;
  \<close>
  The three columns of an order detail are not \<open>null\<close>, and \<open>x || 0\<close> changes neither a
  decimal string nor a number, so each summand is the line total of above.
\<close>

definition subtotal :: "order_detail list \<Rightarrow> rat" where
  "subtotal details = foldl (\<lambda>total detail. js_plus total (getLineTotal detail)) 0 details"

definition orderTotal :: "order \<Rightarrow> order_detail list \<Rightarrow> rat" where
  "orderTotal ord details =
     js_plus (subtotal details) (parseFloat (case freight ord of None \<Rightarrow> 0 | Some f \<Rightarrow> f))"

text \<open>
  Two order lines: three units at 10.00 with a discount of 0.10, and one unit at 0.10
  without discount.
\<close>

definition line_27 :: order_detail where
  "line_27 = \<lparr> orderDetailId = 1, od_orderId = 1, od_productId = 1, od_unitPrice = 10,
                quantity = 3, discount = 1 / 10 \<rparr>"

definition dime :: order_detail where
  "dime = \<lparr> orderDetailId = 2, od_orderId = 1, od_productId = 1, od_unitPrice = 1 / 10,
            quantity = 1, discount = 0 \<rparr>"

section \<open>The delete handlers\<close>

text \<open>
  The request of a \<open>DELETE /<entity>/:id\<close>: the key, and the query parameter \<open>force\<close> as
  the string that was sent. Every handler gets it; only those of products and
  categories read it.
\<close>

record delete_request =
  r_id :: int
  r_force :: "string option"

text \<open>
  \<open>DELETE /products/:id\<close>. The store calls: 0 \<open>Product.findByPk\<close>, 1 \<open>OrderDetail.count\<close>,
  2 \<open>OrderDetail.destroy\<close>, 3 \<open>Product.destroy\<close>.
  \<^verbatim>\<open>
  const transaction = await sequelize.transaction();
  try {
    const { id } = req.params;
    const force = req.query.force === 'true';
    const product = await models.Product.findByPk(id, { transaction });
    if (!product) {
      await transaction.rollback();
      return res.status(404).json(... 'Product not found' ...);
    }
    const orderDetailCount = await models.OrderDetail.count({
      where: { productId: id }, transaction });
    if (orderDetailCount > 0 && !force) {
      await transaction.rollback();
      return res.status(400).json({ success: false, error: {
        message: `Cannot delete product with ${orderDetailCount} order records. Use force=true to override or consider marking as discontinued.`,
        statusCode: 400 } });
    }
    if (force && orderDetailCount > 0) {
      await models.OrderDetail.destroy({ where: { productId: id }, transaction });
    }
    await models.Product.destroy({ where: { productId: id }, transaction });
    await transaction.commit();
    res.json({ success: true, message: 'Product deleted successfully',
      data: { deletedProductId: id, affectedOrderDetails: orderDetailCount } });
  } catch (error) {
    await transaction.rollback();
    next(error);
  }
  \<close>
\<close>

definition delete_product :: "nat option \<Rightarrow> db \<Rightarrow> delete_request \<Rightarrow> outcome" where
  "delete_product fault d r =
     (let force = (r_force r = Some ''true'');
          orderDetailCount = length (filter (\<lambda>x. od_productId x = r_id r) (orderDetails d))
      in
      if throws fault 0 Product then caught d
      else if find (\<lambda>p. productId p = r_id r) (products d) = None
      then \<lparr> response = Json 404 ''Product not found'', store = d,
             transaction = Some Rolled_back, data = No_data \<rparr>
      else if throws fault 1 OrderDetail then caught d
      else if 0 < orderDetailCount \<and> \<not> force
      then \<lparr> response =
               Json 400 (''Cannot delete product with '' @ show_nat orderDetailCount @
                 '' order records. Use force=true to override or consider marking as discontinued.''),
             store = d, transaction = Some Rolled_back, data = No_data \<rparr>
      else if force \<and> 0 < orderDetailCount \<and> throws fault 2 OrderDetail then caught d
      else if throws fault 3 Product then caught d
      else \<lparr> response = Json 200 ''Product deleted successfully'',
             store = d\<lparr>orderDetails :=
                          (if force \<and> 0 < orderDetailCount
                           then filter (\<lambda>x. od_productId x \<noteq> r_id r) (orderDetails d)
                           else orderDetails d),
                        products := filter (\<lambda>p. productId p \<noteq> r_id r) (products d)\<rparr>,
             transaction = Some Committed,
             data = Deleted (r_id r) orderDetailCount \<rparr>)"

text \<open>
  \<open>DELETE /categories/:id\<close>. The store calls: 0 \<open>Category.findByPk\<close>, 1 \<open>Product.count\<close>,
  2 \<open>Product.update\<close>, 3 \<open>Category.destroy\<close>.
  \<^verbatim>\<open>
  const force = req.query.force === 'true';
  const category = await models.Category.findByPk(id, { transaction });
  if (!category) {
    await transaction.rollback();
    return res.status(404).json(... 'Category not found' ...);
  }
  const productCount = await models.Product.count({ where: { categoryId: id }, transaction });
  if (productCount > 0 && !force) {
    await transaction.rollback();
    return res.status(400).json({ success: false, error: {
      message: `Cannot delete category with ${productCount} products. Use force=true to override.`,
      statusCode: 400 } });
  }
  if (force && productCount > 0) {
    // Set products to null category
    await models.Product.update({ categoryId: null },
      { where: { categoryId: id }, transaction });
  }
  await models.Category.destroy({ where: { categoryId: id }, transaction });
  await transaction.commit();
  res.json({ success: true, message: 'Category deleted successfully',
    data: { deletedCategoryId: id, affectedProducts: productCount } });
  \<close>
\<close>

definition delete_category :: "nat option \<Rightarrow> db \<Rightarrow> delete_request \<Rightarrow> outcome" where
  "delete_category fault d r =
     (let force = (r_force r = Some ''true'');
          productCount = length (filter (\<lambda>p. categoryId p = Some (r_id r)) (products d))
      in
      if throws fault 0 Category then caught d
      else if r_id r \<notin> set (categories d)
      then \<lparr> response = Json 404 ''Category not found'', store = d,
             transaction = Some Rolled_back, data = No_data \<rparr>
      else if throws fault 1 Product then caught d
      else if 0 < productCount \<and> \<not> force
      then \<lparr> response =
               Json 400 (''Cannot delete category with '' @ show_nat productCount @
                 '' products. Use force=true to override.''),
             store = d, transaction = Some Rolled_back, data = No_data \<rparr>
      else if force \<and> 0 < productCount \<and> throws fault 2 Product then caught d
      else if throws fault 3 Category then caught d
      else \<lparr> response = Json 200 ''Category deleted successfully'',
             store = d\<lparr>products :=
                          (if force \<and> 0 < productCount
                           then map (\<lambda>p. if categoryId p = Some (r_id r)
                                         then p\<lparr>categoryId := None\<rparr> else p) (products d)
                           else products d),
                        categories := filter (\<lambda>c. c \<noteq> r_id r) (categories d)\<rparr>,
             transaction = Some Committed,
             data = Deleted (r_id r) productCount \<rparr>)"

text \<open>
  \<open>DELETE /employees/:id\<close>, which opens no transaction and reads no \<open>force\<close>. The store
  calls: 0 \<open>Order.count\<close>, 1 \<open>Employee.count\<close>, 2 \<open>Employee.destroy\<close>.
  \<^verbatim>\<open>
  const { id } = req.params;
  const orderCount = await models.Order.count({ where: { employeeId: id } });
  if (orderCount > 0) {
    return res.status(400).json({ success: false, error: {
      message: `Cannot delete employee with ${orderCount} orders. Reassign orders first.`,
      statusCode: 400 } });
  }
  const subordinateCount = await models.Employee.count({ where: { mgrId: id } });
  if (subordinateCount > 0) {
    return res.status(400).json({ success: false, error: {
      message: `Cannot delete employee with ${subordinateCount} subordinates. Reassign subordinates first.`,
      statusCode: 400 } });
  }
  const deletedRows = await models.Employee.destroy({ where: { employeeId: id } });
  if (deletedRows === 0) { return res.status(404).json(... 'Employee not found' ...); }
  res.json({ success: true, message: 'Employee deleted successfully' });
  \<close>
\<close>

definition delete_employee :: "nat option \<Rightarrow> db \<Rightarrow> delete_request \<Rightarrow> outcome" where
  "delete_employee fault d r =
     (let orderCount = length (filter (\<lambda>ord. o_employeeId ord = Some (r_id r)) (orders d));
          subordinateCount = length (filter (\<lambda>e. mgrId e = Some (r_id r)) (employees d));
          deletedRows = length (filter (\<lambda>e. employeeId e = r_id r) (employees d))
      in
      if throws fault 0 Order then forwarded d
      else if 0 < orderCount
      then \<lparr> response =
               Json 400 (''Cannot delete employee with '' @ show_nat orderCount @
                 '' orders. Reassign orders first.''),
             store = d, transaction = None, data = No_data \<rparr>
      else if throws fault 1 Employee then forwarded d
      else if 0 < subordinateCount
      then \<lparr> response =
               Json 400 (''Cannot delete employee with '' @ show_nat subordinateCount @
                 '' subordinates. Reassign subordinates first.''),
             store = d, transaction = None, data = No_data \<rparr>
      else if throws fault 2 Employee then forwarded d
      else if deletedRows = 0
      then \<lparr> response = Json 404 ''Employee not found'', store = d, transaction = None,
             data = No_data \<rparr>
      else \<lparr> response = Json 200 ''Employee deleted successfully'',
             store = d\<lparr>employees := filter (\<lambda>e. employeeId e \<noteq> r_id r) (employees d)\<rparr>,
             transaction = None, data = No_data \<rparr>)"

text \<open>
  \<open>DELETE /customers/:id\<close>, which opens no transaction and reads no \<open>force\<close>. The store
  calls: 0 \<open>Order.count\<close>, 1 \<open>Customer.destroy\<close>.
  \<^verbatim>\<open>
  const orderCount = await models.Order.count({ where: { custId: id } });
  if (orderCount > 0) {
    return res.status(400).json({ success: false, error: {
      message: `Cannot delete customer with ${orderCount} orders. Remove or reassign orders first.`,
      statusCode: 400 } });
  }
  const deletedRows = await models.Customer.destroy({ where: { custId: id } });
  if (deletedRows === 0) { return res.status(404).json(... 'Customer not found' ...); }
  res.json({ success: true, message: 'Customer deleted successfully' });
  \<close>
\<close>

definition delete_customer :: "nat option \<Rightarrow> db \<Rightarrow> delete_request \<Rightarrow> outcome" where
  "delete_customer fault d r =
     (let orderCount = length (filter (\<lambda>ord. custId ord = r_id r) (orders d));
          deletedRows = length (filter (\<lambda>c. c = r_id r) (customers d))
      in
      if throws fault 0 Order then forwarded d
      else if 0 < orderCount
      then \<lparr> response =
               Json 400 (''Cannot delete customer with '' @ show_nat orderCount @
                 '' orders. Remove or reassign orders first.''),
             store = d, transaction = None, data = No_data \<rparr>
      else if throws fault 1 Customer then forwarded d
      else if deletedRows = 0
      then \<lparr> response = Json 404 ''Customer not found'', store = d, transaction = None,
             data = No_data \<rparr>
      else \<lparr> response = Json 200 ''Customer deleted successfully'',
             store = d\<lparr>customers := filter (\<lambda>c. c \<noteq> r_id r) (customers d)\<rparr>,
             transaction = None, data = No_data \<rparr>)"

text \<open>
  A small store: one customer, one employee, one shipper, one category, the product of
  above, one order (not shipped) of that customer taken by that employee, with two
  order lines for the product.
\<close>

definition order_1 :: order where
  "order_1 = \<lparr> orderId = 1, custId = 1, o_employeeId = Some 1,
               orderDate = Some 1718409600000, requiredDate = None, shippedDate = None,
               shipperId = 1, freight = Some 0, shipName = None, shipAddress = None,
               shipCity = None, shipRegion = None, shipPostalCode = None,
               shipCountry = None \<rparr>"

definition small_db :: db where
  "small_db =
     \<lparr> customers = [1], employees = [davolio], shippers = [1], categories = [1],
       products = [chai], orders = [order_1],
       orderDetails =
         [\<lparr> orderDetailId = 1, od_orderId = 1, od_productId = 1, od_unitPrice = 18,
            quantity = 2, discount = 0 \<rparr>,
          \<lparr> orderDetailId = 2, od_orderId = 1, od_productId = 1, od_unitPrice = 18,
            quantity = 3, discount = 1 / 10 \<rparr>] \<rparr>"

text \<open>An order body for customer \<open>c\<close> with one line for product 1, without dates.\<close>

definition body_for :: "int \<Rightarrow> order_body" where
  "body_for c =
     \<lparr> b_custId = c, b_employeeId = None, b_orderDate = None, b_requiredDate = None,
       b_shippedDate = None, b_shipperId = 1, b_freight = None, b_shipName = None,
       b_shipAddress = None, b_shipCity = None, b_shipRegion = None,
       b_shipPostalCode = None, b_shipCountry = None,
       b_orderDetails = [\<lparr> d_productId = 1, d_quantity = 1, d_unitPrice = 18,
                           d_discount = None \<rparr>] \<rparr>"

text \<open>The small store with its order shipped.\<close>

definition shipped_db :: db where
  "shipped_db = small_db\<lparr>orders := [order_1\<lparr>shippedDate := Some 1718496000000\<rparr>]\<rparr>"

definition no_update :: order_update where
  "no_update = \<lparr> u_employeeId = None, u_requiredDate = None, u_shippedDate = None,
                  u_shipperId = None, u_freight = None, u_shipName = None,
                  u_shipAddress = None, u_shipCity = None, u_shipRegion = None,
                  u_shipPostalCode = None, u_shipCountry = None \<rparr>"

section \<open>Theorems\<close>

subsection \<open>Doubles\<close>

text \<open>
  An integer below \<open>2^53\<close> is a double, and the double nearest to a positive number
  is within one part in \<open>2^53\<close> of it.
\<close>

lemma round_half_even_int: "round_half_even (of_int m) = m"
  by (simp add: round_half_even_def)

lemma bitlen_one: "bitlen 1 = 1"
  by (simp add: bitlen_alt_def)

lemma floor_log2_int:
  assumes "0 < n"
  shows "floor_log2 (of_int n) = bitlen n - 1"
proof -
  have b: "1 \<le> bitlen n" using assms by (auto simp: bitlen_alt_def)
  have "2 ^ nat (bitlen n - 1) \<le> n" using bitlen_bounds [OF assms] ..
  then have "(of_int (2 ^ nat (bitlen n - 1)) :: rat) \<le> of_int n"
    by (simp only: of_int_le_iff)
  then have "(2 :: rat) ^ nat (bitlen n - 1) \<le> of_int n" by simp
  moreover have "power_int (2 :: rat) (bitlen n - 1) = 2 ^ nat (bitlen n - 1)"
    using b by (simp add: power_int_def)
  ultimately have "power_int (2 :: rat) (bitlen n - 1) \<le> of_int n" by simp
  then show ?thesis
    by (simp add: floor_log2_def bitlen_one)
qed

lemma nearest_double_int:
  assumes "0 \<le> n" and "n < 2 ^ 53"
  shows "nearest_double (of_int n) = of_int n"
proof (cases "n = 0")
  case True
  then show ?thesis by (simp add: nearest_double_def)
next
  case False
  with assms have pos: "0 < n" by simp
  have le: "bitlen n \<le> 53"
    using assms(2) by (simp add: bitlen_le_iff_power)
  define k where "k = nat (53 - bitlen n)"
  have ik: "int k = 53 - bitlen n" using le by (simp add: k_def)
  have "floor_log2 \<bar>of_int n\<bar> - 52 = bitlen n - 53"
    using pos by (simp add: floor_log2_int)
  also have "\<dots> = - int k" using ik by simp
  finally have e: "floor_log2 \<bar>of_int n\<bar> - 52 = - int k" .
  have u: "power_int (2 :: rat) (floor_log2 \<bar>of_int n\<bar> - 52) = 1 / 2 ^ k"
    unfolding e power_int_minus_divide power_int_of_nat ..
  have d: "(of_int n :: rat) / (1 / 2 ^ k) = of_int (n * 2 ^ k)" by simp
  have r: "round_half_even ((of_int n :: rat) / (1 / 2 ^ k)) = n * 2 ^ k"
    unfolding d by (rule round_half_even_int)
  have nz: "(of_int n :: rat) \<noteq> 0" using pos by simp
  have "nearest_double (of_int n) =
        of_int (round_half_even ((of_int n :: rat) / (1 / 2 ^ k))) * (1 / 2 ^ k)"
    unfolding nearest_double_def Let_def u by (simp only: nz if_False)
  also have "\<dots> = of_int (n * 2 ^ k) * (1 / 2 ^ k)" by (simp only: r)
  also have "\<dots> = of_int n" by simp
  finally show ?thesis .
qed





subsection \<open>Stock status\<close>

text \<open>
  C2 (as stated, refuted): the claim computes the status by the ladder Discontinued, Out of
  Stock, Reorder Required, Low Stock, In Stock, so that a product that is not
  discontinued, with \<open>0 < unitsInStock < 10\<close> and \<open>unitsInStock \<le> reorderLevel\<close>, is
  Reorder Required. For a product that is not discontinued, has five units in stock and
  a reorder level of ten, that ladder answers Reorder Required, and each of the three
  ladders of the code answers Low Stock.
\<close>

theorem stockStatus_ladder_counterexample:
  "getProductStockStatus chai = Low_Stock \<and>
   getProductStockStatus_categories chai = Low_Stock \<and>
   getStockStatus chai = Low_Stock \<and>
   stockStatus_spec (discontinued chai) 5 10 = Reorder_Required \<and>
   unitsInStock chai = Some 5 \<and> reorderLevel chai = Some 10 \<and>
   getProductStockStatus chai \<noteq> stockStatus_spec (discontinued chai) 5 10 \<and>
   getProductStockStatus_categories chai \<noteq> stockStatus_spec (discontinued chai) 5 10 \<and>
   getStockStatus chai \<noteq> stockStatus_spec (discontinued chai) 5 10"
  by (simp add: getProductStockStatus_def getProductStockStatus_categories_def
        getStockStatus_def isDiscontinued_def isOutOfStock_def isLowStock_def
        stockStatus_spec_def chai_def to_number_def or_zero_def)

text \<open>
  C2 (amended): the status of a product is computed by one of three ladders. In all
  three it is Discontinued when the discontinued flag is set, whatever the stock, and
  otherwise Out of Stock when \<open>unitsInStock\<close> is 0. After that, \<open>routes/products.js\<close>
  answers Low Stock when \<open>unitsInStock\<close> is below 10 (Low Stock is tested before Reorder
  Required), otherwise Reorder Required when \<open>unitsInStock\<close> is at most \<open>reorderLevel\<close>,
  otherwise In Stock; \<open>routes/categories.js\<close> answers Low Stock when \<open>unitsInStock\<close> is
  below 10 and otherwise In Stock; and the Product model, whose status the routes
  without a ladder of their own return, answers Low Stock when
  \<open>0 < unitsInStock \<le> reorderLevel\<close> and otherwise In Stock. A product that is not
  discontinued, with \<open>0 < unitsInStock < 10\<close> and \<open>unitsInStock \<le> reorderLevel\<close>, is Low
  Stock in all three. When \<open>unitsInStock\<close> is \<open>null\<close> the two routes answer Low Stock and
  the model answers Out of Stock.
\<close>

theorem stockStatus_ladder:
  "(discontinued p \<longrightarrow>
      getProductStockStatus p = Discontinued \<and>
      getProductStockStatus_categories p = Discontinued \<and>
      getStockStatus p = Discontinued) \<and>
   (\<not> discontinued p \<and> unitsInStock p = Some 0 \<longrightarrow>
      getProductStockStatus p = Out_of_Stock \<and>
      getProductStockStatus_categories p = Out_of_Stock \<and>
      getStockStatus p = Out_of_Stock) \<and>
   (\<not> discontinued p \<and> unitsInStock p = Some u \<and> u \<noteq> 0 \<and> u < 10 \<longrightarrow>
      getProductStockStatus p = Low_Stock \<and>
      getProductStockStatus_categories p = Low_Stock) \<and>
   (\<not> discontinued p \<and> unitsInStock p = Some u \<and> 10 \<le> u \<and>
    reorderLevel p = Some r \<and> u \<le> r \<longrightarrow>
      getProductStockStatus p = Reorder_Required \<and>
      getProductStockStatus_categories p = In_Stock) \<and>
   (\<not> discontinued p \<and> unitsInStock p = Some u \<and> 10 \<le> u \<and>
    (reorderLevel p = None \<or> (reorderLevel p = Some r \<and> r < u)) \<longrightarrow>
      getProductStockStatus p = In_Stock \<and>
      getProductStockStatus_categories p = In_Stock) \<and>
   (\<not> discontinued p \<and> unitsInStock p = Some u \<and> 0 < u \<and>
    reorderLevel p = Some r \<and> u \<le> r \<longrightarrow>
      getStockStatus p = Low_Stock) \<and>
   (\<not> discontinued p \<and> unitsInStock p = Some u \<and> u \<noteq> 0 \<and>
    (u < 0 \<or> reorderLevel p = None \<or> (reorderLevel p = Some r \<and> r < u)) \<longrightarrow>
      getStockStatus p = In_Stock) \<and>
   (\<not> discontinued p \<and> unitsInStock p = Some u \<and> 0 < u \<and> u < 10 \<and>
    reorderLevel p = Some r \<and> u \<le> r \<longrightarrow>
      getProductStockStatus p = Low_Stock \<and>
      getProductStockStatus_categories p = Low_Stock \<and>
      getStockStatus p = Low_Stock) \<and>
   (\<not> discontinued p \<and> unitsInStock p = None \<longrightarrow>
      getProductStockStatus p = Low_Stock \<and>
      getProductStockStatus_categories p = Low_Stock \<and>
      getStockStatus p = Out_of_Stock)"
proof -
  have routes:
    "(discontinued p \<longrightarrow>
        getProductStockStatus p = Discontinued \<and>
        getProductStockStatus_categories p = Discontinued) \<and>
     (\<not> discontinued p \<and> unitsInStock p = Some 0 \<longrightarrow>
        getProductStockStatus p = Out_of_Stock \<and>
        getProductStockStatus_categories p = Out_of_Stock) \<and>
     (\<not> discontinued p \<and> unitsInStock p = Some u \<and> u \<noteq> 0 \<and> u < 10 \<longrightarrow>
        getProductStockStatus p = Low_Stock \<and>
        getProductStockStatus_categories p = Low_Stock) \<and>
     (\<not> discontinued p \<and> unitsInStock p = Some u \<and> 10 \<le> u \<and>
      reorderLevel p = Some r \<and> u \<le> r \<longrightarrow>
        getProductStockStatus p = Reorder_Required \<and>
        getProductStockStatus_categories p = In_Stock) \<and>
     (\<not> discontinued p \<and> unitsInStock p = Some u \<and> 10 \<le> u \<and>
      (reorderLevel p = None \<or> (reorderLevel p = Some r \<and> r < u)) \<longrightarrow>
        getProductStockStatus p = In_Stock \<and>
        getProductStockStatus_categories p = In_Stock) \<and>
     (\<not> discontinued p \<and> unitsInStock p = None \<longrightarrow>
        getProductStockStatus p = Low_Stock \<and>
        getProductStockStatus_categories p = Low_Stock)"
    by (auto simp add: getProductStockStatus_def getProductStockStatus_categories_def
          to_number_def or_zero_def split: option.splits)
  have model:
    "(discontinued p \<longrightarrow> getStockStatus p = Discontinued) \<and>
     (\<not> discontinued p \<and> unitsInStock p = Some 0 \<longrightarrow> getStockStatus p = Out_of_Stock) \<and>
     (\<not> discontinued p \<and> unitsInStock p = Some u \<and> 0 < u \<and>
      reorderLevel p = Some r \<and> u \<le> r \<longrightarrow>
        getStockStatus p = Low_Stock) \<and>
     (\<not> discontinued p \<and> unitsInStock p = Some u \<and> u \<noteq> 0 \<and>
      (u < 0 \<or> reorderLevel p = None \<or> (reorderLevel p = Some r \<and> r < u)) \<longrightarrow>
        getStockStatus p = In_Stock) \<and>
     (\<not> discontinued p \<and> unitsInStock p = None \<longrightarrow> getStockStatus p = Out_of_Stock)"
    by (auto simp add: getStockStatus_def isDiscontinued_def isOutOfStock_def isLowStock_def
          or_zero_def Let_def split: option.splits)
  have both:
    "\<not> discontinued p \<and> unitsInStock p = Some u \<and> 0 < u \<and> u < 10 \<and>
     reorderLevel p = Some r \<and> u \<le> r \<longrightarrow>
       getProductStockStatus p = Low_Stock \<and>
       getProductStockStatus_categories p = Low_Stock \<and>
       getStockStatus p = Low_Stock"
    by (auto simp add: getProductStockStatus_def getProductStockStatus_categories_def
          getStockStatus_def isDiscontinued_def isOutOfStock_def isLowStock_def
          to_number_def or_zero_def Let_def)
  from routes model both show ?thesis by blast
qed

theorem stockStatus_ladder_witness:
  "\<not> discontinued chai \<and> unitsInStock chai = Some 5 \<and> reorderLevel chai = Some 10 \<and>
   (0::int) < 5 \<and> (5::int) < 10 \<and> (5::int) \<le> 10 \<and>
   getProductStockStatus chai = Low_Stock \<and>
   getProductStockStatus_categories chai = Low_Stock \<and>
   getStockStatus chai = Low_Stock"
  using stockStatus_ladder [of chai 5 10]
  by (simp add: chai_def)

subsection \<open>Pagination\<close>








subsection \<open>Years of service\<close>

lemma year_ms: "(365.25 * 24 * 60 * 60 * 1000 :: rat) = of_int 31557600000"
  by simp

lemma getYearsOfService_div:
  "hireDate e = Some h \<Longrightarrow> getYearsOfService now e = Some ((now - h) div 31557600000)"
  unfolding getYearsOfService_def year_ms floor_divide_of_int_eq by simp

text \<open>
  C7: for an employee with a hire date, \<open>getYearsOfService\<close> is the floor of the elapsed
  time divided by 365.25 days: it is the integer \<open>y\<close> with
  \<open>y * 365.25 days \<le> now - hireDate < (y + 1) * 365.25 days\<close>. It is not a calendar
  subtraction: after a calendar year of 365 days it is still 0. Ten years and 100 days
  are between 3751 and 3753 days (ten calendar years hold one to three leap days), and
  any elapsed time of at least 3751 days and less than 3754 days gives 10.
\<close>

theorem yearsOfService_floor:
  assumes "hireDate e = Some h"
  shows "getYearsOfService now e =
           Some \<lfloor>(of_int (now - h) :: rat) / (365.25 * of_int day_ms)\<rfloor> \<and>
         (getYearsOfService now e = Some y) =
           (y * 31557600000 \<le> now - h \<and> now - h < (y + 1) * 31557600000) \<and>
         (now - h = 365 * day_ms \<longrightarrow> getYearsOfService now e = Some 0) \<and>
         (3751 * day_ms \<le> now - h \<and> now - h < 3754 * day_ms \<longrightarrow>
            getYearsOfService now e = Some 10)"
proof -
  have d: "getYearsOfService now e = Some ((now - h) div 31557600000)"
    using assms by (rule getYearsOfService_div)
  have f: "getYearsOfService now e =
           Some \<lfloor>(of_int (now - h) :: rat) / (365.25 * of_int day_ms)\<rfloor>"
    using assms by (simp add: getYearsOfService_def day_ms_def)
  have c: "((now - h) div 31557600000 = y) =
           (y * 31557600000 \<le> now - h \<and> now - h < (y + 1) * 31557600000)"
    by (auto simp add: div_int_pos_iff algebra_simps
          intro!: div_pos_pos_trivial dest: zdiv_mono1)
  show ?thesis
    unfolding f [symmetric]
    unfolding d
    using c by (auto simp add: day_ms_def)
qed

theorem yearsOfService_floor_witness:
  "hireDate davolio = Some 1406332800000 \<and>
   getYearsOfService (1406332800000 + 3752 * day_ms) davolio = Some 10 \<and>
   getYearsOfService (1406332800000 + 365 * day_ms) davolio = Some 0"
proof -
  have h: "hireDate davolio = Some 1406332800000" by (simp add: davolio_def)
  let ?a = "1406332800000 + 3752 * day_ms"
  let ?b = "1406332800000 + 365 * day_ms"
  have "3751 * day_ms \<le> ?a - 1406332800000 \<and> ?a - 1406332800000 < 3754 * day_ms
          \<longrightarrow> getYearsOfService ?a davolio = Some 10"
    using yearsOfService_floor [OF h, of ?a] by blast
  then have a: "getYearsOfService ?a davolio = Some 10"
    by (simp add: day_ms_def)
  have "?b - 1406332800000 = 365 * day_ms \<longrightarrow> getYearsOfService ?b davolio = Some 0"
    using yearsOfService_floor [OF h, of ?b] by blast
  then have b: "getYearsOfService ?b davolio = Some 0"
    by simp
  from h a b show ?thesis by simp
qed

subsection \<open>The age filter\<close>

text \<open>
  C6 (as stated, refuted): on 15 June 2024 an employee born on 1 January 1994 has age
  30, and the filter \<open>maxAge = 30\<close> asks for \<open>birthDate >= 15 June 1994\<close>, which this
  employee does not satisfy.
\<close>

theorem age_filter_counterexample:
  "getAge june_15_2024 davolio = Some 30 \<and>
   \<not> birthDate_matches (age_filter june_15_2024 None (Some 30)) davolio"
  by (simp add: getAge_def davolio_def june_15_2024_def age_filter_def birthDate_matches_def
        new_Date_def days_in_month_def date_le_def)

lemma new_Date_same_day:
  assumes "valid_date b" and "100 \<le> getFullYear b"
  shows "new_Date (getFullYear b) (getMonth b) (getDate b) = b\<lparr>timeOfDay := 0\<rparr>"
  using assms by (simp add: new_Date_def valid_date_def)

lemma new_Date_year:
  assumes "100 \<le> y"
  shows "getFullYear (new_Date y m d) = y"
  using assms by (simp add: new_Date_def Let_def)

text \<open>
  C6 (amended): \<open>maxAge\<close> yields the inclusive predicate
  \<open>birthDate >= new Date(year - maxAge, month, day)\<close> and \<open>minAge\<close> yields
  \<open>birthDate <= new Date(year - minAge, month, day)\<close>, with the year, month and day of
  today. An employee who turns exactly \<open>maxAge\<close> today (born on today's month and day,
  \<open>maxAge\<close> years ago) has age \<open>maxAge\<close> and satisfies the \<open>maxAge\<close> filter, and every
  employee who satisfies the \<open>maxAge\<close> filter has an age of at most \<open>maxAge\<close>. The years
  are taken from 100 on, where \<open>new Date\<close> keeps the year it is given.
\<close>

theorem age_filter_bounds:
  assumes "birthDate e = Some b" and "valid_date b"
    and "100 \<le> getFullYear today - a"
  shows "birthDate_matches (age_filter today None (Some a)) e =
           date_le (new_Date (getFullYear today - a) (getMonth today) (getDate today)) b \<and>
         birthDate_matches (age_filter today (Some a) None) e =
           date_le b (new_Date (getFullYear today - a) (getMonth today) (getDate today)) \<and>
         (getFullYear b = getFullYear today - a \<and> getMonth b = getMonth today \<and>
          getDate b = getDate today \<longrightarrow>
            getAge today e = Some a \<and>
            birthDate_matches (age_filter today None (Some a)) e) \<and>
         (birthDate_matches (age_filter today None (Some a)) e \<longrightarrow>
            (\<exists>g. getAge today e = Some g \<and> g \<le> a))"
proof -
  let ?lo = "new_Date (getFullYear today - a) (getMonth today) (getDate today)"
  have m: "birthDate_matches (age_filter today None (Some a)) e = date_le ?lo b"
    using assms(1) by (simp add: birthDate_matches_def age_filter_def)
  have n: "birthDate_matches (age_filter today (Some a) None) e = date_le b ?lo"
    using assms(1) by (simp add: birthDate_matches_def age_filter_def)
  have t: "getFullYear b = getFullYear today - a \<and> getMonth b = getMonth today \<and>
        getDate b = getDate today \<longrightarrow>
          getAge today e = Some a \<and>
          birthDate_matches (age_filter today None (Some a)) e"
  proof
    assume h: "getFullYear b = getFullYear today - a \<and> getMonth b = getMonth today \<and>
               getDate b = getDate today"
    then have "100 \<le> getFullYear b" using assms(3) by simp
    with assms(2) have "new_Date (getFullYear b) (getMonth b) (getDate b) = b\<lparr>timeOfDay := 0\<rparr>"
      by (rule new_Date_same_day)
    with h have lo: "?lo = b\<lparr>timeOfDay := 0\<rparr>" by simp
    have "date_le (b\<lparr>timeOfDay := 0\<rparr>) b"
      using assms(2) by (simp add: date_le_def valid_date_def)
    with lo m have f: "birthDate_matches (age_filter today None (Some a)) e" by simp
    have "getAge today e = Some a"
      using assms(1) h by (simp add: getAge_def)
    with f show "getAge today e = Some a \<and>
                 birthDate_matches (age_filter today None (Some a)) e" by simp
  qed
  have u: "birthDate_matches (age_filter today None (Some a)) e \<longrightarrow>
          (\<exists>g. getAge today e = Some g \<and> g \<le> a)"
  proof
    assume "birthDate_matches (age_filter today None (Some a)) e"
    with m have "date_le ?lo b" by simp
    then have "getFullYear ?lo \<le> getFullYear b"
      by (auto simp add: date_le_def)
    with assms(3) have "getFullYear today - a \<le> getFullYear b"
      by (simp add: new_Date_year)
    then show "\<exists>g. getAge today e = Some g \<and> g \<le> a"
      using assms(1) by (auto simp add: getAge_def Let_def)
  qed
  from m n t u show ?thesis by blast
qed

theorem age_filter_bounds_witness:
  "getAge june_15_2024
     (davolio\<lparr>birthDate := Some \<lparr> getFullYear = 1994, getMonth = 5, getDate = 15,
                                  timeOfDay = 0 \<rparr>\<rparr>) = Some 30 \<and>
   birthDate_matches (age_filter june_15_2024 None (Some 30))
     (davolio\<lparr>birthDate := Some \<lparr> getFullYear = 1994, getMonth = 5, getDate = 15,
                                  timeOfDay = 0 \<rparr>\<rparr>)"
proof -
  let ?b = "\<lparr> getFullYear = 1994, getMonth = 5, getDate = 15, timeOfDay = 0 \<rparr>"
  let ?e = "davolio\<lparr>birthDate := Some ?b\<rparr>"
  have h1: "birthDate ?e = Some ?b" by simp
  have h2: "valid_date ?b" by (simp add: valid_date_def days_in_month_def)
  have h3: "100 \<le> getFullYear june_15_2024 - 30" by (simp add: june_15_2024_def)
  have "getFullYear ?b = getFullYear june_15_2024 - 30 \<and>
        getMonth ?b = getMonth june_15_2024 \<and> getDate ?b = getDate june_15_2024"
    by (simp add: june_15_2024_def)
  with age_filter_bounds [OF h1 h2 h3] show ?thesis by blast
qed

subsection \<open>Filter composition\<close>

text \<open>
  Every request but one kind returns the rows that each of its filters alone returns:
  the exception is a request with \<open>lowStock=true\<close> and an \<open>inStock\<close> that is present and
  not \<open>true\<close>.
\<close>

lemma where_matches_all_filters:
  assumes "\<not> (q_inStock q \<noteq> None \<and> q_inStock q \<noteq> Some ''true'' \<and>
              q_lowStock q = Some ''true'')"
  shows "where_matches like (build_where q) p =
     (where_matches like (build_where (no_filter\<lparr>q_search := q_search q\<rparr>)) p \<and>
      where_matches like (build_where (no_filter\<lparr>q_categoryId := q_categoryId q\<rparr>)) p \<and>
      where_matches like (build_where (no_filter\<lparr>q_supplierId := q_supplierId q\<rparr>)) p \<and>
      where_matches like (build_where (no_filter\<lparr>q_discontinued := q_discontinued q\<rparr>)) p \<and>
      where_matches like (build_where (no_filter\<lparr>q_inStock := q_inStock q\<rparr>)) p \<and>
      where_matches like (build_where (no_filter\<lparr>q_lowStock := q_lowStock q\<rparr>)) p \<and>
      where_matches like (build_where (no_filter\<lparr>q_minPrice := q_minPrice q\<rparr>)) p \<and>
      where_matches like (build_where (no_filter\<lparr>q_maxPrice := q_maxPrice q\<rparr>)) p)"
proof -
  have s: "where_matches like (build_where (no_filter\<lparr>q_search := q_search q\<rparr>)) p =
      (case (if truthy_string (q_search q) then q_search q else None) of
         None \<Rightarrow> True
       | Some t \<Rightarrow>
           like (''%'' @ t @ ''%'') (productName p) \<or>
           (case quantityPerUnit p of
              None \<Rightarrow> False | Some u \<Rightarrow> like (''%'' @ t @ ''%'') u))"
    by (simp add: build_where_def where_matches_def empty_where_def no_filter_def)
  have c: "where_matches like (build_where (no_filter\<lparr>q_categoryId := q_categoryId q\<rparr>)) p =
      (case q_categoryId q of None \<Rightarrow> True | Some c \<Rightarrow> categoryId p = Some c)"
    by (simp add: build_where_def where_matches_def empty_where_def no_filter_def
          truthy_string_def split: option.splits)
  have u: "where_matches like (build_where (no_filter\<lparr>q_supplierId := q_supplierId q\<rparr>)) p =
      (case q_supplierId q of None \<Rightarrow> True | Some c \<Rightarrow> supplierId p = Some c)"
    by (simp add: build_where_def where_matches_def empty_where_def no_filter_def
          truthy_string_def split: option.splits)
  have d: "where_matches like (build_where (no_filter\<lparr>q_discontinued := q_discontinued q\<rparr>)) p =
      (case q_discontinued q of None \<Rightarrow> True | Some t \<Rightarrow> discontinued p = (t = ''true''))"
    by (simp add: build_where_def where_matches_def empty_where_def no_filter_def
          truthy_string_def split: option.splits)
  have i: "where_matches like (build_where (no_filter\<lparr>q_inStock := q_inStock q\<rparr>)) p =
      (case q_inStock q of
         None \<Rightarrow> True
       | Some t \<Rightarrow> (case unitsInStock p of
                     None \<Rightarrow> False
                   | Some v \<Rightarrow> if t = ''true'' then 0 < v else v = 0))"
    by (simp add: build_where_def where_matches_def empty_where_def no_filter_def
          truthy_string_def split: option.splits)
  have l: "where_matches like (build_where (no_filter\<lparr>q_lowStock := q_lowStock q\<rparr>)) p =
      (if q_lowStock q = Some ''true''
       then (case unitsInStock p of None \<Rightarrow> False | Some v \<Rightarrow> 0 < v \<and> v < 10)
       else True)"
    by (simp add: build_where_def where_matches_def empty_where_def no_filter_def
          truthy_string_def split: option.splits)
  have mn: "where_matches like (build_where (no_filter\<lparr>q_minPrice := q_minPrice q\<rparr>)) p =
      (case q_minPrice q of
         None \<Rightarrow> True
       | Some lo \<Rightarrow> (case unitPrice p of None \<Rightarrow> False | Some x \<Rightarrow> lo \<le> x))"
    by (simp add: build_where_def where_matches_def empty_where_def no_filter_def
          truthy_string_def split: option.splits)
  have mx: "where_matches like (build_where (no_filter\<lparr>q_maxPrice := q_maxPrice q\<rparr>)) p =
      (case q_maxPrice q of
         None \<Rightarrow> True
       | Some hi \<Rightarrow> (case unitPrice p of None \<Rightarrow> False | Some x \<Rightarrow> x \<le> hi))"
    by (simp add: build_where_def where_matches_def empty_where_def no_filter_def
          truthy_string_def split: option.splits)
  have w: "where_matches like (build_where q) p =
     ((case (if truthy_string (q_search q) then q_search q else None) of
         None \<Rightarrow> True
       | Some t \<Rightarrow>
           like (''%'' @ t @ ''%'') (productName p) \<or>
           (case quantityPerUnit p of
              None \<Rightarrow> False | Some u \<Rightarrow> like (''%'' @ t @ ''%'') u)) \<and>
      (case q_categoryId q of None \<Rightarrow> True | Some c \<Rightarrow> categoryId p = Some c) \<and>
      (case q_supplierId q of None \<Rightarrow> True | Some c \<Rightarrow> supplierId p = Some c) \<and>
      (case q_discontinued q of None \<Rightarrow> True | Some t \<Rightarrow> discontinued p = (t = ''true'')) \<and>
      (if q_lowStock q = Some ''true''
       then (case unitsInStock p of None \<Rightarrow> False | Some v \<Rightarrow> 0 < v \<and> v < 10)
       else (case q_inStock q of
               None \<Rightarrow> True
             | Some t \<Rightarrow> (case unitsInStock p of
                     None \<Rightarrow> False
                   | Some v \<Rightarrow> if t = ''true'' then 0 < v else v = 0))) \<and>
      (case q_minPrice q of
         None \<Rightarrow> True
       | Some lo \<Rightarrow> (case unitPrice p of None \<Rightarrow> False | Some x \<Rightarrow> lo \<le> x)) \<and>
      (case q_maxPrice q of
         None \<Rightarrow> True
       | Some hi \<Rightarrow> (case unitPrice p of None \<Rightarrow> False | Some x \<Rightarrow> x \<le> hi)))"
    by (simp add: build_where_def where_matches_def empty_where_def Let_def
          split: option.splits)
  show ?thesis
    unfolding s c u d i l mn mx w
    using assms by (auto split: option.splits if_splits)
qed


text \<open>
  C3: the request \<open>inStock=false&lowStock=true\<close> returns the product with five units in
  stock, which \<open>inStock=false\<close> alone does not return: the assignment for \<open>lowStock\<close>
  replaces the condition that \<open>inStock\<close> had put on \<open>unitsInStock\<close>. The rows of the pair
  are those of \<open>lowStock=true\<close> alone, not the intersection, which is empty. The two
  price bounds, which also share one column, are combined.
\<close>

theorem inStock_lowStock_not_intersection:
  "matching_rows like inStock_false_lowStock_true [chai] = [chai] \<and>
   matching_rows like inStock_false [chai] = [] \<and>
   matching_rows like lowStock_true [chai] = [chai] \<and>
   build_where inStock_false_lowStock_true = build_where lowStock_true \<and>
   where_matches like
     (build_where (no_filter\<lparr>q_minPrice := Some lo, q_maxPrice := Some hi\<rparr>)) p =
     (where_matches like (build_where (no_filter\<lparr>q_minPrice := Some lo\<rparr>)) p \<and>
      where_matches like (build_where (no_filter\<lparr>q_maxPrice := Some hi\<rparr>)) p)"
  by (auto simp add: matching_rows_def build_where_def where_matches_def empty_where_def
        no_filter_def inStock_false_def lowStock_true_def inStock_false_lowStock_true_def
        truthy_string_def chai_def split: option.splits)

theorem inStock_lowStock_not_intersection_witness:
  "matching_rows (\<lambda>pat v. True) inStock_false_lowStock_true [chai] = [chai] \<and>
   matching_rows (\<lambda>pat v. True) inStock_false [chai] = []"
  using inStock_lowStock_not_intersection [of "\<lambda>pat v. True"]
  by blast

subsection \<open>The transaction of the order handlers\<close>

text \<open>
  C1: \<open>POST /orders\<close> for a customer that does not exist answers 400 'Customer not
  found' with the transaction still open. For every request, \<open>POST /orders\<close> leaves its
  transaction open exactly when it answers 400, and rolls it back exactly when it
  forwards an error; it never commits, because \<open>Order.create\<close> is a call on a key that
  the registry does not have. For the same reason \<open>DELETE /orders/:id\<close> throws at its
  first call, \<open>Order.findByPk\<close>: it always rolls back and forwards the error, and reaches
  neither of its two early responses. The delete handlers of products and categories,
  which call \<open>rollback()\<close> before each early response, never leave theirs open.
\<close>

theorem order_handlers_leave_transaction_open:
  "post_order parse_date now None small_db (body_for 2) =
     \<lparr> response = Json 400 ''Customer not found'', store = small_db,
       transaction = Some Open, data = No_data \<rparr> \<and>
   (transaction (post_order parse_date now fault d b) = Some Open) =
     (\<exists>m. response (post_order parse_date now fault d b) = Json 400 m) \<and>
   (transaction (post_order parse_date now fault d b) = Some Rolled_back) =
     (response (post_order parse_date now fault d b) = Next_error) \<and>
   (transaction (post_order parse_date now fault d b) = Some Committed) =
     (response (post_order parse_date now fault d b) =
        Json 201 ''Order created successfully'') \<and>
   transaction (post_order parse_date now fault d b) \<noteq> Some Committed \<and>
   delete_order fault d k = caught d \<and>
   transaction (delete_order fault d k) = Some Rolled_back \<and>
   response (delete_order fault d k) = Next_error \<and>
   transaction (delete_product fault d r) \<noteq> Some Open \<and>
   transaction (delete_category fault d r) \<noteq> Some Open"
proof -
  have a: "post_order parse_date now None small_db (body_for 2) =
     \<lparr> response = Json 400 ''Customer not found'', store = small_db,
       transaction = Some Open, data = No_data \<rparr>"
    by (simp add: post_order_def small_db_def body_for_def Let_def throws_def models_def)
  have c1: "(transaction (post_order parse_date now fault d b) = Some Open) =
     (\<exists>m. response (post_order parse_date now fault d b) = Json 400 m)"
    by (simp add: post_order_def Let_def caught_def throws_def models_def)
  have c2: "(transaction (post_order parse_date now fault d b) = Some Rolled_back) =
     (response (post_order parse_date now fault d b) = Next_error)"
    by (simp add: post_order_def Let_def caught_def throws_def models_def)
  have c3: "transaction (post_order parse_date now fault d b) \<noteq> Some Committed"
    by (simp add: post_order_def Let_def caught_def throws_def models_def)
  have c4: "response (post_order parse_date now fault d b) \<noteq>
              Json 201 ''Order created successfully''"
    by (simp add: post_order_def Let_def caught_def throws_def models_def)
  have e: "delete_order fault d k = caught d"
    by (simp add: delete_order_def throws_def models_def)
  have e2: "transaction (delete_order fault d k) = Some Rolled_back \<and>
            response (delete_order fault d k) = Next_error"
    unfolding e by (simp add: caught_def)
  have f: "transaction (delete_product fault d r) \<noteq> Some Open"
    by (simp add: delete_product_def Let_def caught_def)
  have g: "transaction (delete_category fault d r) \<noteq> Some Open"
    by (simp add: delete_category_def Let_def caught_def)
  from a c1 c2 c3 c4 e e2 f g show ?thesis by blast
qed

subsection \<open>Shipped orders\<close>

text \<open>
  C9: \<open>PUT /orders/:id\<close> and \<open>DELETE /orders/:id\<close> begin with \<open>models.Order.findByPk\<close>, a
  call on a key that the registry does not have. For every store, key and body the
  call throws: \<open>PUT\<close> forwards the error, \<open>DELETE\<close> rolls back and forwards the error,
  and neither reaches its guard for shipped orders. For the shipped order of the small
  store the answer is the forwarded error, not 400 'Cannot modify shipped orders' and
  not 400 'Cannot delete shipped orders'. No table changes.
\<close>

theorem shipped_order_guards_not_reached:
  "put_order parse_date fault d k u = forwarded d \<and>
   delete_order fault d k = caught d \<and>
   store (put_order parse_date fault d k u) = d \<and>
   store (delete_order fault d k) = d \<and>
   find (\<lambda>ord. orderId ord = 1) (orders shipped_db) =
     Some (order_1\<lparr>shippedDate := Some 1718496000000\<rparr>) \<and>
   response (put_order parse_date None shipped_db 1 (no_update\<lparr>u_freight := Some 3\<rparr>)) =
     Next_error \<and>
   response (put_order parse_date None shipped_db 1 (no_update\<lparr>u_freight := Some 3\<rparr>)) \<noteq>
     Json 400 ''Cannot modify shipped orders'' \<and>
   response (delete_order None shipped_db 1) = Next_error \<and>
   response (delete_order None shipped_db 1) \<noteq> Json 400 ''Cannot delete shipped orders''"
proof -
  have p: "\<And>f s i v. put_order parse_date f s i v = forwarded s"
    by (simp add: put_order_def Let_def throws_def models_def)
  have q: "\<And>f s i. delete_order f s i = caught s"
    by (simp add: delete_order_def throws_def models_def)
  have s: "find (\<lambda>ord. orderId ord = 1) (orders shipped_db) =
             Some (order_1\<lparr>shippedDate := Some 1718496000000\<rparr>)"
    by (simp add: shipped_db_def order_1_def)
  show ?thesis
    unfolding p q using s by (simp add: forwarded_def caught_def)
qed

subsection \<open>Created orders\<close>


subsection \<open>Deleting an entity that has dependent rows\<close>

lemma show_nat_digit: "n < 10 \<Longrightarrow> show_nat n = [digit n]"
  by (subst show_nat.simps) simp

text \<open>
  C8 (as stated, refuted): the employee of the small store has one order, and so has its
  customer. \<open>DELETE /employees/1\<close> and \<open>DELETE /customers/1\<close> do not answer 400 with the
  count, and with \<open>force=true\<close> they do not delete: with and without \<open>force\<close> the answer
  is the same forwarded error, and the employee and the customer stay.
\<close>

theorem delete_force_counterexample:
  "orders small_db = [order_1] \<and> o_employeeId order_1 = Some 1 \<and> custId order_1 = 1 \<and>
   delete_employee None small_db \<lparr> r_id = 1, r_force = Some ''true'' \<rparr> =
     forwarded small_db \<and>
   delete_employee None small_db \<lparr> r_id = 1, r_force = None \<rparr> = forwarded small_db \<and>
   delete_customer None small_db \<lparr> r_id = 1, r_force = Some ''true'' \<rparr> =
     forwarded small_db \<and>
   delete_customer None small_db \<lparr> r_id = 1, r_force = None \<rparr> = forwarded small_db \<and>
   response (forwarded small_db) = Next_error \<and>
   employees (store (forwarded small_db)) = [davolio] \<and>
   customers (store (forwarded small_db)) = [1]"
  by (simp add: delete_employee_def delete_customer_def small_db_def order_1_def Let_def
        throws_def models_def forwarded_def)

text \<open>
  C8 (amended): a product with order details and a category with products are not
  deleted unless \<open>force\<close> is \<open>true\<close>: the answer is 400 with the exact count of
  dependent rows in the message, the transaction is rolled back and no table changes.
  With \<open>force=true\<close> the answer is 200, the order details of the product are deleted
  with it, and the products of the category are kept with \<open>categoryId\<close> set to \<open>null\<close>.
  The handlers of employees and customers have no override: \<open>force\<close> changes nothing
  of what they do, and an employee or a customer with orders is not deleted.
\<close>

theorem delete_with_dependents:
  "(find (\<lambda>p. productId p = r_id r) (products d) \<noteq> None \<and>
    0 < length (filter (\<lambda>x. od_productId x = r_id r) (orderDetails d)) \<longrightarrow>
      (r_force r \<noteq> Some ''true'' \<longrightarrow>
         delete_product None d r =
           \<lparr> response =
               Json 400 (''Cannot delete product with '' @
                 show_nat (length (filter (\<lambda>x. od_productId x = r_id r) (orderDetails d))) @
                 '' order records. Use force=true to override or consider marking as discontinued.''),
             store = d, transaction = Some Rolled_back, data = No_data \<rparr>) \<and>
      (r_force r = Some ''true'' \<longrightarrow>
         delete_product None d r =
           \<lparr> response = Json 200 ''Product deleted successfully'',
             store = d\<lparr>orderDetails := filter (\<lambda>x. od_productId x \<noteq> r_id r) (orderDetails d),
                        products := filter (\<lambda>p. productId p \<noteq> r_id r) (products d)\<rparr>,
             transaction = Some Committed,
             data = Deleted (r_id r)
                      (length (filter (\<lambda>x. od_productId x = r_id r) (orderDetails d))) \<rparr>)) \<and>
   (r_id r \<in> set (categories d) \<and>
    0 < length (filter (\<lambda>p. categoryId p = Some (r_id r)) (products d)) \<longrightarrow>
      (r_force r \<noteq> Some ''true'' \<longrightarrow>
         delete_category None d r =
           \<lparr> response =
               Json 400 (''Cannot delete category with '' @
                 show_nat (length (filter (\<lambda>p. categoryId p = Some (r_id r)) (products d))) @
                 '' products. Use force=true to override.''),
             store = d, transaction = Some Rolled_back, data = No_data \<rparr>) \<and>
      (r_force r = Some ''true'' \<longrightarrow>
         delete_category None d r =
           \<lparr> response = Json 200 ''Category deleted successfully'',
             store = d\<lparr>products := map (\<lambda>p. if categoryId p = Some (r_id r)
                                              then p\<lparr>categoryId := None\<rparr> else p) (products d),
                        categories := filter (\<lambda>c. c \<noteq> r_id r) (categories d)\<rparr>,
             transaction = Some Committed,
             data = Deleted (r_id r)
                      (length (filter (\<lambda>p. categoryId p = Some (r_id r)) (products d))) \<rparr>)) \<and>
   delete_employee fault d (r\<lparr>r_force := f\<rparr>) = delete_employee fault d r \<and>
   delete_customer fault d (r\<lparr>r_force := f\<rparr>) = delete_customer fault d r \<and>
   (0 < length (filter (\<lambda>ord. o_employeeId ord = Some (r_id r)) (orders d)) \<longrightarrow>
      employees (store (delete_employee fault d r)) = employees d \<and>
      response (delete_employee fault d r) \<noteq> Json 200 ''Employee deleted successfully'') \<and>
   (0 < length (filter (\<lambda>ord. custId ord = r_id r) (orders d)) \<longrightarrow>
      customers (store (delete_customer fault d r)) = customers d \<and>
      response (delete_customer fault d r) \<noteq> Json 200 ''Customer deleted successfully'')"
proof -
  have p: "find (\<lambda>p. productId p = r_id r) (products d) \<noteq> None \<and>
    0 < length (filter (\<lambda>x. od_productId x = r_id r) (orderDetails d)) \<longrightarrow>
      (r_force r \<noteq> Some ''true'' \<longrightarrow>
         delete_product None d r =
           \<lparr> response =
               Json 400 (''Cannot delete product with '' @
                 show_nat (length (filter (\<lambda>x. od_productId x = r_id r) (orderDetails d))) @
                 '' order records. Use force=true to override or consider marking as discontinued.''),
             store = d, transaction = Some Rolled_back, data = No_data \<rparr>) \<and>
      (r_force r = Some ''true'' \<longrightarrow>
         delete_product None d r =
           \<lparr> response = Json 200 ''Product deleted successfully'',
             store = d\<lparr>orderDetails := filter (\<lambda>x. od_productId x \<noteq> r_id r) (orderDetails d),
                        products := filter (\<lambda>p. productId p \<noteq> r_id r) (products d)\<rparr>,
             transaction = Some Committed,
             data = Deleted (r_id r)
                      (length (filter (\<lambda>x. od_productId x = r_id r) (orderDetails d))) \<rparr>)"
    by (simp add: delete_product_def Let_def throws_def models_def)
  have c: "r_id r \<in> set (categories d) \<and>
    0 < length (filter (\<lambda>p. categoryId p = Some (r_id r)) (products d)) \<longrightarrow>
      (r_force r \<noteq> Some ''true'' \<longrightarrow>
         delete_category None d r =
           \<lparr> response =
               Json 400 (''Cannot delete category with '' @
                 show_nat (length (filter (\<lambda>p. categoryId p = Some (r_id r)) (products d))) @
                 '' products. Use force=true to override.''),
             store = d, transaction = Some Rolled_back, data = No_data \<rparr>) \<and>
      (r_force r = Some ''true'' \<longrightarrow>
         delete_category None d r =
           \<lparr> response = Json 200 ''Category deleted successfully'',
             store = d\<lparr>products := map (\<lambda>p. if categoryId p = Some (r_id r)
                                              then p\<lparr>categoryId := None\<rparr> else p) (products d),
                        categories := filter (\<lambda>c. c \<noteq> r_id r) (categories d)\<rparr>,
             transaction = Some Committed,
             data = Deleted (r_id r)
                      (length (filter (\<lambda>p. categoryId p = Some (r_id r)) (products d))) \<rparr>)"
    by (simp add: delete_category_def Let_def throws_def models_def)
  have e: "delete_employee fault d (r\<lparr>r_force := f\<rparr>) = delete_employee fault d r"
    by (simp add: delete_employee_def Let_def)
  have u: "delete_customer fault d (r\<lparr>r_force := f\<rparr>) = delete_customer fault d r"
    by (simp add: delete_customer_def Let_def)
  have e': "0 < length (filter (\<lambda>ord. o_employeeId ord = Some (r_id r)) (orders d)) \<longrightarrow>
      employees (store (delete_employee fault d r)) = employees d \<and>
      response (delete_employee fault d r) \<noteq> Json 200 ''Employee deleted successfully''"
    by (simp add: delete_employee_def Let_def forwarded_def)
  have u': "0 < length (filter (\<lambda>ord. custId ord = r_id r) (orders d)) \<longrightarrow>
      customers (store (delete_customer fault d r)) = customers d \<and>
      response (delete_customer fault d r) \<noteq> Json 200 ''Customer deleted successfully''"
    by (simp add: delete_customer_def Let_def forwarded_def)
  from p c e u e' u' show ?thesis by blast
qed

theorem delete_with_dependents_witness:
  "delete_product None small_db \<lparr> r_id = 1, r_force = None \<rparr> =
     \<lparr> response = Json 400 ''Cannot delete product with 2 order records. Use force=true to override or consider marking as discontinued.'',
       store = small_db, transaction = Some Rolled_back, data = No_data \<rparr> \<and>
   delete_product None small_db \<lparr> r_id = 1, r_force = Some ''true'' \<rparr> =
     \<lparr> response = Json 200 ''Product deleted successfully'',
       store = small_db\<lparr>orderDetails := [], products := []\<rparr>,
       transaction = Some Committed, data = Deleted 1 2 \<rparr> \<and>
   delete_category None small_db \<lparr> r_id = 1, r_force = Some ''true'' \<rparr> =
     \<lparr> response = Json 200 ''Category deleted successfully'',
       store = small_db\<lparr>products := [chai\<lparr>categoryId := None\<rparr>], categories := []\<rparr>,
       transaction = Some Committed, data = Deleted 1 1 \<rparr> \<and>
   0 < length (filter (\<lambda>ord. o_employeeId ord = Some 1) (orders small_db)) \<and>
   employees (store (delete_employee None small_db \<lparr> r_id = 1, r_force = Some ''true'' \<rparr>)) =
     employees small_db \<and>
   0 < length (filter (\<lambda>ord. custId ord = 1) (orders small_db)) \<and>
   customers (store (delete_customer None small_db \<lparr> r_id = 1, r_force = Some ''true'' \<rparr>)) =
     customers small_db"
proof -
  let ?r = "\<lparr> r_id = 1, r_force = None \<rparr>"
  let ?f = "\<lparr> r_id = 1, r_force = Some ''true'' \<rparr>"
  have hp: "find (\<lambda>p. productId p = 1) (products small_db) \<noteq> None"
    by (simp add: small_db_def chai_def)
  have np: "filter (\<lambda>x. od_productId x = 1) (orderDetails small_db) = orderDetails small_db"
    "filter (\<lambda>x. od_productId x \<noteq> 1) (orderDetails small_db) = []"
    "filter (\<lambda>p. productId p \<noteq> 1) (products small_db) = []"
    "length (orderDetails small_db) = 2"
    by (simp_all add: small_db_def chai_def)
  have hc: "1 \<in> set (categories small_db)"
    by (simp add: small_db_def)
  have nc: "filter (\<lambda>p. categoryId p = Some 1) (products small_db) = [chai]"
    "map (\<lambda>p. if categoryId p = Some 1 then p\<lparr>categoryId := None\<rparr> else p) (products small_db)
       = [chai\<lparr>categoryId := None\<rparr>]"
    "filter (\<lambda>c. c \<noteq> 1) (categories small_db) = []"
    by (simp_all add: small_db_def chai_def)
  have ho: "0 < length (filter (\<lambda>ord. o_employeeId ord = Some 1) (orders small_db))"
    "0 < length (filter (\<lambda>ord. custId ord = 1) (orders small_db))"
    by (simp_all add: small_db_def order_1_def)
  have s2: "show_nat 2 = ''2''" by (simp add: show_nat_digit digit_def)
  have a: "delete_product None small_db ?r =
     \<lparr> response = Json 400 ''Cannot delete product with 2 order records. Use force=true to override or consider marking as discontinued.'',
       store = small_db, transaction = Some Rolled_back, data = No_data \<rparr>"
    using delete_with_dependents [of ?r small_db] hp np s2 by simp
  have b: "delete_product None small_db ?f =
     \<lparr> response = Json 200 ''Product deleted successfully'',
       store = small_db\<lparr>orderDetails := [], products := []\<rparr>,
       transaction = Some Committed, data = Deleted 1 2 \<rparr>"
    using delete_with_dependents [of ?f small_db] hp np by simp
  have c: "delete_category None small_db ?f =
     \<lparr> response = Json 200 ''Category deleted successfully'',
       store = small_db\<lparr>products := [chai\<lparr>categoryId := None\<rparr>], categories := []\<rparr>,
       transaction = Some Committed, data = Deleted 1 1 \<rparr>"
    using delete_with_dependents [of ?f small_db] hc nc by simp
  have e: "employees (store (delete_employee None small_db ?f)) = employees small_db"
    using delete_with_dependents [of ?f small_db None] ho by simp
  have u: "customers (store (delete_customer None small_db ?f)) = customers small_db"
    using delete_with_dependents [of ?f small_db None] ho by simp
  from a b c ho e u show ?thesis by blast
qed

subsection \<open>Line totals\<close>

lemma dime_total: "getLineTotal dime = 3602879701896397 / 36028797018963968"
  by code_simp

lemma dime_sum_1:
  "js_plus 0 (3602879701896397 / 36028797018963968) =
     3602879701896397 / 36028797018963968"
  by code_simp

lemma dime_sum_2:
  "js_plus (3602879701896397 / 36028797018963968) (3602879701896397 / 36028797018963968) =
     3602879701896397 / 18014398509481984"
  by code_simp

lemma dime_sum_3:
  "js_plus (3602879701896397 / 18014398509481984) (3602879701896397 / 36028797018963968) =
     1351079888211149 / 4503599627370496"
  by code_simp

lemma three_tenths: "parseFloat (3 / 10) = 5404319552844595 / 18014398509481984"
  by code_simp


text \<open>
  C4 (as stated, refuted): three order lines of one unit at 0.10 have the exact decimal
  subtotal 0.30. The subtotal that the hook computes is the double
  0.3000000000000000444, which is neither 0.30 nor the double that 0.30 is read as
  (0.2999999999999999889): the sum has drifted by one unit in the last place.
\<close>

theorem line_total_drift_counterexample:
  "subtotal [dime, dime, dime] = 1351079888211149 / 4503599627370496 \<and>
   subtotal [dime, dime, dime] \<noteq> 3 / 10 \<and>
   subtotal [dime, dime, dime] \<noteq> parseFloat (3 / 10)"
proof -
  have "subtotal [dime, dime, dime] =
        js_plus (js_plus (js_plus 0 (getLineTotal dime)) (getLineTotal dime))
          (getLineTotal dime)"
    by (simp add: subtotal_def)
  also have "\<dots> = 1351079888211149 / 4503599627370496"
    by (simp only: dime_total dime_sum_1 dime_sum_2 dime_sum_3)
  finally have a: "subtotal [dime, dime, dime] = 1351079888211149 / 4503599627370496" .
  show ?thesis
    unfolding a three_tenths by simp
qed

lemma getLineTotal_27: "getLineTotal line_27 = 27"
  by code_simp

lemma subtotal_snoc: "subtotal (xs @ [x]) = js_plus (subtotal xs) (getLineTotal x)"
  by (simp add: subtotal_def)

lemma subtotal_replicate_27:
  "k \<le> 1000 \<Longrightarrow> subtotal (replicate k line_27) = of_int (27 * int k)"
proof (induction k)
  case 0
  then show ?case by (simp add: subtotal_def)
next
  case (Suc k)
  then have ih: "subtotal (replicate k line_27) = of_int (27 * int k)" by simp
  have "subtotal (replicate (Suc k) line_27) =
        js_plus (subtotal (replicate k line_27)) (getLineTotal line_27)"
    by (simp only: replicate_Suc replicate_append_same [symmetric] subtotal_snoc)
  also have "\<dots> = nearest_double (of_int (27 * int k) + 27)"
    by (simp add: js_plus_def ih getLineTotal_27)
  also have "\<dots> = nearest_double (of_int (27 * int (Suc k)))"
    by (simp add: algebra_simps)
  also have "\<dots> = of_int (27 * int (Suc k))"
    using Suc.prems by (intro nearest_double_int) simp_all
  finally show ?case .
qed


text \<open>
  C4 (amended): the line total is \<open>unitPrice * quantity * (1 - discount)\<close> in double
  arithmetic: \<open>parseFloat\<close> and every operation round to the nearest double, and so
  does every addition of the subtotal and of the freight. For a unit price of 10.00, a
  quantity of 3 and a discount of 0.10 the line total is 27 exactly, and the sum of 1000
  such line totals is 27000 exactly.
\<close>

theorem line_total_double:
  "getLineTotal line_27 = 27 \<and>
   subtotal (replicate 1000 line_27) = 27000 \<and>
   getLineTotal x =
     nearest_double
       (nearest_double (nearest_double (od_unitPrice x) * nearest_double (of_int (quantity x))) *
        nearest_double (1 - nearest_double (discount x))) \<and>
   subtotal (xs @ [x]) = nearest_double (subtotal xs + getLineTotal x) \<and>
   orderTotal ord xs =
     nearest_double (subtotal xs +
                     nearest_double (case freight ord of None \<Rightarrow> 0 | Some f \<Rightarrow> f))"
proof -
  have a: "subtotal (replicate 1000 line_27) = 27000"
    using subtotal_replicate_27 [of 1000] by simp
  have b: "getLineTotal x =
     nearest_double
       (nearest_double (nearest_double (od_unitPrice x) * nearest_double (of_int (quantity x))) *
        nearest_double (1 - nearest_double (discount x)))"
    by (simp add: getLineTotal_def js_times_def js_minus_def parseFloat_def)
  have c: "subtotal (xs @ [x]) = nearest_double (subtotal xs + getLineTotal x)"
    by (simp add: subtotal_snoc js_plus_def)
  have d: "orderTotal ord xs =
     nearest_double (subtotal xs +
                     nearest_double (case freight ord of None \<Rightarrow> 0 | Some f \<Rightarrow> f))"
    by (simp add: orderTotal_def js_plus_def parseFloat_def)
  from getLineTotal_27 a b c d show ?thesis by blast
qed


end
